theory Spec2Isabelle
  imports Main
begin

section \<open>JavaScript values, errors and the event loop\<close>

text \<open>
  The bridge stores arbitrary JavaScript values. Only what the code inspects is kept
  apart: the result of \<^verbatim>\<open>typeof\<close>, the identity of a function, of a symbol and of an
  object, and the content of a string. \<open>Fn k\<close> is the function object of the host with
  identity \<open>k\<close>, \<open>Inst a\<close> the \<^verbatim>\<open>PysBridge\<close> instance at address \<open>a\<close>,
  \<open>ObjectPrototype\<close> the object \<^verbatim>\<open>Object.prototype\<close> and \<open>Builtin name\<close> the
  function that is its property \<open>name\<close>. Numbers are represented by their integer
  values only.
\<close>

datatype jsval =
    Undefined
  | Null
  | Bool bool
  | Num int
  | Str string
  | Sym nat
  | Fn nat
  | Obj nat
  | Inst nat
  | Builtin string
  | ObjectPrototype

fun typeof :: "jsval \<Rightarrow> string" where
  "typeof Undefined = ''undefined''"
| "typeof Null = ''object''"
| "typeof (Bool b) = ''boolean''"
| "typeof (Num n) = ''number''"
| "typeof (Str s) = ''string''"
| "typeof (Sym k) = ''symbol''"
| "typeof (Fn k) = ''function''"
| "typeof (Obj k) = ''object''"
| "typeof (Inst a) = ''object''"
| "typeof (Builtin name) = ''function''"
| "typeof ObjectPrototype = ''object''"

text \<open>
  \<^verbatim>\<open>throw new Error(msg)\<close> is the value \<open>Error msg\<close>; calling a value that is not a
  function, or reading a property of \<^verbatim>\<open>undefined\<close>, is the \<^verbatim>\<open>TypeError\<close> of the
  language.
\<close>

datatype error = Error string | TypeError string

text \<open>
  What a call that changes the process comes to: it returns a value (\<^verbatim>\<open>undefined\<close>
  for a method with no \<^verbatim>\<open>return\<close>), or it throws, in both cases with the process as
  the call left it. \<open>Unmodelled\<close> is not an outcome of the program: it marks the one
  assignment at which the model stops (see \<open>assign\<close> below).
\<close>

datatype 'w outcome = Done 'w jsval | Thrown 'w error | Unmodelled

subsection \<open>Plain objects as dictionaries\<close>

text \<open>
  The stores are objects made by \<^verbatim>\<open>{}\<close> and used as dictionaries. Such an object has
  the properties that were assigned to it, a map from the name to the value, and it
  inherits the properties of \<^verbatim>\<open>Object.prototype\<close>: \<^verbatim>\<open>obj[name]\<close> is the assigned value
  when there is one, and the inherited property otherwise, which is \<^verbatim>\<open>undefined\<close> for
  every name that \<^verbatim>\<open>Object.prototype\<close> does not have. Names and ids are strings.

  The properties of \<^verbatim>\<open>Object.prototype\<close> are those of the language standard
  (ECMAScript, with its annex for web browsers): eleven functions, and the accessor
  \<^verbatim>\<open>__proto__\<close>, which reads as the prototype of the object, here \<^verbatim>\<open>Object.prototype\<close>
  itself.
\<close>

definition object_prototype_functions :: "string list" where
  "object_prototype_functions =
     [''constructor'', ''hasOwnProperty'', ''isPrototypeOf'', ''propertyIsEnumerable'',
      ''toLocaleString'', ''toString'', ''valueOf'', ''__defineGetter__'',
      ''__defineSetter__'', ''__lookupGetter__'', ''__lookupSetter__'']"

definition inherited :: "string \<Rightarrow> jsval" where
  "inherited name =
     (if name = ''__proto__'' then ObjectPrototype
      else if name \<in> set object_prototype_functions then Builtin name
      else Undefined)"

text \<open>A name that reads \<^verbatim>\<open>undefined\<close> in a new store.\<close>

definition plain :: "string \<Rightarrow> bool" where
  "plain name = (inherited name = Undefined)"

text \<open>\<open>lookup obj name\<close> is \<^verbatim>\<open>obj[name]\<close> in a store of values.\<close>

definition lookup :: "(string \<rightharpoonup> jsval) \<Rightarrow> string \<Rightarrow> jsval" where
  "lookup obj name = (case obj name of Some v \<Rightarrow> v | None \<Rightarrow> inherited name)"

text \<open>
  \<^verbatim>\<open>#states\<close>, \<^verbatim>\<open>#pysBridge\<close> and the tables of promises are assigned objects of
  one kind only (an entry, an instance, a deferred). \<open>slot obj name\<close> is
  \<^verbatim>\<open>obj[name]\<close> there: the assigned object, or the inherited value. An assigned object
  has the \<^verbatim>\<open>typeof\<close> \<^verbatim>\<open>"object"\<close>.
\<close>

datatype 'v slot = Own 'v | Inherit jsval

definition slot :: "(string \<rightharpoonup> 'v) \<Rightarrow> string \<Rightarrow> 'v slot" where
  "slot obj name = (case obj name of Some v \<Rightarrow> Own v | None \<Rightarrow> Inherit (inherited name))"

fun typeof_slot :: "'v slot \<Rightarrow> string" where
  "typeof_slot (Own v) = ''object''"
| "typeof_slot (Inherit v) = typeof v"

text \<open>
  The assignment \<^verbatim>\<open>obj[name] = v\<close> makes or overwrites the property \<open>name\<close> of the
  object itself, also when \<^verbatim>\<open>Object.prototype\<close> has a function of that name. The name
  \<^verbatim>\<open>__proto__\<close> is the exception: the assignment runs the setter of
  \<^verbatim>\<open>Object.prototype\<close>, which does nothing when the value is neither an object nor
  \<^verbatim>\<open>null\<close>, and otherwise replaces the prototype of the object by the value. What the
  object inherits then depends on the properties of a value of the host, which the model
  does not have: the result is \<open>None\<close>, and the call that made the assignment is
  \<open>Unmodelled\<close>.
\<close>

definition assign :: "(string \<rightharpoonup> jsval) \<Rightarrow> string \<Rightarrow> jsval \<Rightarrow> (string \<rightharpoonup> jsval) option" where
  "assign obj name v =
     (if name = ''__proto__''
      then (if typeof v = ''object'' \<or> typeof v = ''function'' then None else Some obj)
      else Some (obj(name \<mapsto> v)))"

definition assign_object :: "(string \<rightharpoonup> 'v) \<Rightarrow> string \<Rightarrow> 'v \<Rightarrow> (string \<rightharpoonup> 'v) option" where
  "assign_object obj name v =
     (if name = ''__proto__'' then None else Some (obj(name \<mapsto> v)))"

text \<open>The object \<^verbatim>\<open>{ getter: stateObject, setter: stateSetterObject }\<close>.\<close>

record state_entry =
  getter :: jsval
  setter :: jsval

subsection \<open>Callbacks and the trace\<close>

text \<open>
  The callbacks (setters and registered functions) belong to the host. The model records
  every invocation the bridge makes, with the callee and the argument list, in a trace and
  does not look inside the callee. A call of an \<^verbatim>\<open>async\<close> function that ends in
  \<^verbatim>\<open>throw\<close> rejects the promise it returned: the trace records \<open>Rejected\<close>.
  \<open>Woken k\<close> records that the promise returned by a direct \<^verbatim>\<open>pys_wait\<close> of the
  outside task \<open>k\<close> was fulfilled.
\<close>

datatype event =
    Invoked jsval "jsval list"
  | Rejected error
  | Woken nat

text \<open>A synchronous call \<^verbatim>\<open>f(...args)\<close> of a value.\<close>

definition invoke :: "event list \<Rightarrow> jsval \<Rightarrow> jsval list \<Rightarrow> error + event list" where
  "invoke tr f args =
     (if typeof f = ''function'' then Inr (tr @ [Invoked f args])
      else Inl (TypeError ''not a function''))"

subsection \<open>Promises and jobs\<close>

text \<open>
  \<^verbatim>\<open>{ promise, resolve }\<close> as \<^verbatim>\<open>#createPromise\<close> builds it: whether the promise is
  settled, and the continuations that await it, in the order in which they arrived.
\<close>

record 'f deferred =
  settled :: bool
  reactions :: "'f list"

definition createPromise :: "'f deferred" where
  "createPromise = \<lparr>settled = False, reactions = []\<rparr>"

text \<open>
  An \<^verbatim>\<open>await\<close> always gives up control. The continuation is queued as a job at once
  when the promise is settled (or when the awaited value is no promise), and parked on the
  promise otherwise. A caller that awaits an \<^verbatim>\<open>async\<close> wait function is resumed in two
  jobs: \<open>ResumeWait\<close> ends the wait function, which fulfils the promise it returned, and
  this queues \<open>ResumeCall\<close>, the rest of the caller.
\<close>

datatype 'f job = ResumeWait 'f | ResumeCall 'f

definition await_promise :: "'f deferred \<Rightarrow> 'f \<Rightarrow> 'f deferred \<times> 'f job list" where
  "await_promise d k =
     (if settled d then (d, [ResumeWait k])
      else (d\<lparr>reactions := reactions d @ [k]\<rparr>, []))"

text \<open>
  The \<^verbatim>\<open>resolve\<close> function of a promise: the first call settles the promise and queues
  one job for each parked continuation, every later call does nothing.
\<close>

definition resolve_promise :: "'f deferred \<Rightarrow> 'f deferred \<times> 'f job list" where
  "resolve_promise d =
     (if settled d then (d, [])
      else (d\<lparr>settled := True, reactions := []\<rparr>, map ResumeWait (reactions d)))"


section \<open>The class PysBridge\<close>

text \<open>
  Both files define the class \<^verbatim>\<open>PysBridge\<close>. The instances live in a heap, so that the
  identity of an instance is its address; the static field \<^verbatim>\<open>#pysBridge\<close> maps an id to
  the address of its instance. The private fields of an instance are reached through the
  instance only, and every construction makes new store objects. The job queue and the
  trace belong to the whole process.

  The type parameter \<open>'p\<close> is the type of the field \<^verbatim>\<open>#promise\<close>: a dictionary of
  deferreds in the class with one signal for each function name, one deferred in the class
  of \<^verbatim>\<open>assets/pysbridge.js\<close>.
\<close>

type_synonym addr = nat

datatype frame = Frame addr string "jsval list"

record 'p bridge =
  states :: "string \<rightharpoonup> state_entry"
  refs :: "string \<rightharpoonup> jsval"
  funcs :: "string \<rightharpoonup> jsval"
  promise :: 'p

record 'p world =
  instances :: "addr \<Rightarrow> 'p bridge"
  pysBridge :: "string \<rightharpoonup> addr"
  fresh :: addr
  jobs :: "frame job list"
  trace :: "event list"

definition new_bridge :: "'p \<Rightarrow> 'p bridge" where
  "new_bridge p = \<lparr>states = Map.empty, refs = Map.empty, funcs = Map.empty, promise = p\<rparr>"

definition init_world :: "'p \<Rightarrow> 'p world" where
  "init_world p =
     \<lparr>instances = (\<lambda>a. new_bridge p), pysBridge = Map.empty, fresh = 0,
      jobs = [], trace = []\<rparr>"

definition pysBridgeGlobalName :: string where
  "pysBridgeGlobalName = ''$pys_bridge_global_name''"

text \<open>
  \<^verbatim>\<open>Symbol()\<close> makes a symbol that is equal to no other value: the key of the module
  is the symbol 0, and a symbol made anywhere else has another number.
\<close>

definition PRIVATE_CONSTRUCTOR_KEY :: jsval where
  "PRIVATE_CONSTRUCTOR_KEY = Sym 0"

definition update_this :: "'p world \<Rightarrow> addr \<Rightarrow> ('p bridge \<Rightarrow> 'p bridge) \<Rightarrow> 'p world" where
  "update_this w this f = w\<lparr>instances := (instances w)(this := f (instances w this))\<rparr>"

text \<open>The value that \<^verbatim>\<open>PysBridge.#pysBridge[pysid]\<close> reads.\<close>

fun instance_value :: "addr slot \<Rightarrow> jsval" where
  "instance_value (Own a) = Inst a"
| "instance_value (Inherit v) = v"

subsection \<open>Methods with the same text in both files\<close>

text \<open>\<^verbatim>\<open>typeof pysid\<close> is \<^verbatim>\<open>"string"\<close> for the values \<open>Str pysid\<close> and no others.\<close>

fun get_uuid_ref :: "jsval \<Rightarrow> error + string" where
  "get_uuid_ref (Str pysid) = Inr (if pysid = '''' then pysBridgeGlobalName else pysid)"
| "get_uuid_ref other = Inl (Error ''UUID must be a string.'')"

definition get_pys_bridge :: "'p world \<Rightarrow> jsval \<Rightarrow> error + jsval" where
  "get_pys_bridge w pysid =
     (case get_uuid_ref pysid of
        Inl e \<Rightarrow> Inl e
      | Inr uuid \<Rightarrow>
          (if typeof_slot (slot (pysBridge w) uuid) \<noteq> ''undefined''
           then Inr (instance_value (slot (pysBridge w) uuid))
           else Inl (Error (''Bridge id '' @ uuid @ '' not found.''))))"

definition add_state ::
    "'p world \<Rightarrow> addr \<Rightarrow> string \<Rightarrow> jsval \<Rightarrow> jsval \<Rightarrow> 'p world outcome" where
  "add_state w this name stateObject stateSetterObject =
     (case assign_object (states (instances w this)) name
             \<lparr>getter = stateObject, setter = stateSetterObject\<rparr> of
        None \<Rightarrow> Unmodelled
      | Some st \<Rightarrow> Done (update_this w this (\<lambda>b. b\<lparr>states := st\<rparr>)) Undefined)"


definition set_state :: "'p world \<Rightarrow> addr \<Rightarrow> string \<Rightarrow> jsval \<Rightarrow> 'p world outcome" where
  "set_state w this name val =
     (if typeof_slot (slot (states (instances w this)) name) \<noteq> ''undefined''
      then (case invoke (trace w)
                   (case slot (states (instances w this)) name of
                      Own entry \<Rightarrow> setter entry
                    | Inherit v \<Rightarrow> Undefined)
                   [val] of
              Inl e \<Rightarrow> Thrown w e
            | Inr tr \<Rightarrow> Done (w\<lparr>trace := tr\<rparr>) Undefined)
      else Thrown w (Error (''State '' @ name @ '' not found.'')))"

definition add_ref :: "'p world \<Rightarrow> addr \<Rightarrow> string \<Rightarrow> jsval \<Rightarrow> 'p world outcome" where
  "add_ref w this name val =
     (case assign (refs (instances w this)) name val of
        None \<Rightarrow> Unmodelled
      | Some r \<Rightarrow> Done (update_this w this (\<lambda>b. b\<lparr>refs := r\<rparr>)) Undefined)"

definition ref :: "'p world \<Rightarrow> addr \<Rightarrow> string \<Rightarrow> error + jsval" where
  "ref w this name =
     (if typeof (lookup (refs (instances w this)) name) \<noteq> ''undefined''
      then Inr (lookup (refs (instances w this)) name)
      else Inl (Error (''Var '' @ name @ '' not found.'')))"

subsection \<open>The class with one readiness signal for each function name\<close>

definition has_pys_bridge :: "'p world \<Rightarrow> jsval \<Rightarrow> error + bool" where
  "has_pys_bridge w pysid =
     (case get_uuid_ref pysid of
        Inl e \<Rightarrow> Inl e
      | Inr uuid \<Rightarrow> Inr (typeof_slot (slot (pysBridge w) uuid) \<noteq> ''undefined''))"


definition has_ref :: "'p world \<Rightarrow> addr \<Rightarrow> string \<Rightarrow> bool" where
  "has_ref w this name = (typeof (lookup (refs (instances w this)) name) \<noteq> ''undefined'')"


type_synonym signals = "string \<rightharpoonup> frame deferred"

definition "constructor" :: "signals world \<Rightarrow> jsval \<Rightarrow> jsval \<Rightarrow> signals world outcome" where
  "constructor w pysid privateConstructorKey =
     (if privateConstructorKey \<noteq> PRIVATE_CONSTRUCTOR_KEY
      then Thrown w (Error ''Cannot instantiate PysBridge directly.'')
      else
        (case get_uuid_ref pysid of
           Inl e \<Rightarrow> Thrown w e
         | Inr uuid \<Rightarrow>
             (case assign_object (pysBridge w) uuid (fresh w) of
                None \<Rightarrow> Unmodelled
              | Some registry \<Rightarrow>
                  Done (w\<lparr>instances := (instances w)(fresh w := new_bridge Map.empty),
                          pysBridge := registry,
                          fresh := Suc (fresh w)\<rparr>)
                       (Inst (fresh w)))))"

definition create_pys_bridge :: "signals world \<Rightarrow> jsval \<Rightarrow> signals world outcome" where
  "create_pys_bridge w pysid =
     (case get_uuid_ref pysid of
        Inl e \<Rightarrow> Thrown w e
      | Inr uuid \<Rightarrow>
          (if typeof_slot (slot (pysBridge w) uuid) = ''undefined''
           then constructor w (Str uuid) PRIVATE_CONSTRUCTOR_KEY
           else Done w (instance_value (slot (pysBridge w) uuid))))"

text \<open>
  The table \<^verbatim>\<open>this.#promise\<close> after the test that makes a missing entry. The test
  fails for \<^verbatim>\<open>__proto__\<close>, which reads as \<^verbatim>\<open>Object.prototype\<close>, so the assignment
  is to another name and makes a property of the table.
\<close>

definition ensure_promise :: "(string \<rightharpoonup> 'f deferred) \<Rightarrow> string \<Rightarrow> (string \<rightharpoonup> 'f deferred)" where
  "ensure_promise tbl funcname =
     (if typeof_slot (slot tbl funcname) = ''undefined''
      then tbl(funcname \<mapsto> createPromise)
      else tbl)"

text \<open>
  With an inherited value in the place of the deferred, \<^verbatim>\<open>.resolve\<close> is
  \<^verbatim>\<open>undefined\<close> and the call of it throws; \<^verbatim>\<open>.promise\<close> is \<^verbatim>\<open>undefined\<close> too, and
  the \<^verbatim>\<open>await\<close> of it goes on in the next job.
\<close>

definition resolve :: "signals world \<Rightarrow> addr \<Rightarrow> string \<Rightarrow> signals world outcome" where
  "resolve w this funcname =
     (let tbl = ensure_promise (promise (instances w this)) funcname
      in case slot tbl funcname of
           Own d \<Rightarrow>
             (let (d', released) = resolve_promise d
              in Done ((update_this w this (\<lambda>b. b\<lparr>promise := tbl(funcname \<mapsto> d')\<rparr>))
                         \<lparr>jobs := jobs w @ released\<rparr>)
                      Undefined)
         | Inherit v \<Rightarrow>
             Thrown (update_this w this (\<lambda>b. b\<lparr>promise := tbl\<rparr>))
               (TypeError ''resolve is not a function''))"

definition wait :: "signals world \<Rightarrow> addr \<Rightarrow> string \<Rightarrow> frame \<Rightarrow> signals world" where
  "wait w this funcname k =
     (let tbl = ensure_promise (promise (instances w this)) funcname
      in case slot tbl funcname of
           Own d \<Rightarrow>
             (let (d', ready) = await_promise d k
              in (update_this w this (\<lambda>b. b\<lparr>promise := tbl(funcname \<mapsto> d')\<rparr>))
                   \<lparr>jobs := jobs w @ ready\<rparr>)
         | Inherit v \<Rightarrow>
             (update_this w this (\<lambda>b. b\<lparr>promise := tbl\<rparr>))\<lparr>jobs := jobs w @ [ResumeWait k]\<rparr>)"

definition add_func :: "signals world \<Rightarrow> addr \<Rightarrow> string \<Rightarrow> jsval \<Rightarrow> signals world outcome" where
  "add_func w this name funcObject =
     (if typeof funcObject \<noteq> ''function''
      then Thrown w (Error ''Function must be a function.'')
      else
        (case assign (funcs (instances w this)) name funcObject of
           None \<Rightarrow> Unmodelled
         | Some f \<Rightarrow> resolve (update_this w this (\<lambda>b. b\<lparr>funcs := f\<rparr>)) this name))"

text \<open>
  \<^verbatim>\<open>call_func\<close> up to its \<^verbatim>\<open>await\<close>: the rest of the call is the frame, run by
  \<open>run_job\<close> when the event loop reaches it.
\<close>

definition call_func :: "signals world \<Rightarrow> addr \<Rightarrow> string \<Rightarrow> jsval list \<Rightarrow> signals world" where
  "call_func w this name args = wait w this name (Frame this name args)"

fun run_job :: "frame job \<Rightarrow> signals world \<Rightarrow> signals world" where
  "run_job (ResumeWait k) w = w\<lparr>jobs := jobs w @ [ResumeCall k]\<rparr>"
| "run_job (ResumeCall (Frame this name args)) w =
     (if typeof (lookup (funcs (instances w this)) name) = ''function''
      then (case invoke (trace w) (lookup (funcs (instances w this)) name) args of
              Inl e \<Rightarrow> w\<lparr>trace := trace w @ [Rejected e]\<rparr>
            | Inr tr \<Rightarrow> w\<lparr>trace := tr\<rparr>)
      else w)"


text \<open>
  What the code outside the class can do to the process, one call at a time, whether the
  call returns or throws. \<open>Tick\<close> lets the event loop run its oldest job. A sequence of
  calls has a result as long as no call is \<open>Unmodelled\<close>.
\<close>

datatype op =
    Create jsval
  | New jsval jsval
  | AddState addr string jsval jsval
  | SetState addr string jsval
  | AddRef addr string jsval
  | AddFunc addr string jsval
  | CallFunc addr string "jsval list"
  | Tick

fun after :: "'w outcome \<Rightarrow> 'w option" where
  "after (Done w v) = Some w"
| "after (Thrown w e) = Some w"
| "after Unmodelled = None"

fun step :: "signals world \<Rightarrow> op \<Rightarrow> signals world option" where
  "step w (Create pysid) = after (create_pys_bridge w pysid)"
| "step w (New pysid key) = after (constructor w pysid key)"
| "step w (AddState this name stateObject stateSetterObject) =
     after (add_state w this name stateObject stateSetterObject)"
| "step w (SetState this name val) = after (set_state w this name val)"
| "step w (AddRef this name val) = after (add_ref w this name val)"
| "step w (AddFunc this name funcObject) = after (add_func w this name funcObject)"
| "step w (CallFunc this name args) = Some (call_func w this name args)"
| "step w Tick =
     Some (case jobs w of [] \<Rightarrow> w | j # js \<Rightarrow> run_job j (w\<lparr>jobs := js\<rparr>))"

fun run :: "signals world \<Rightarrow> op list \<Rightarrow> signals world option" where
  "run w [] = Some w"
| "run w (op # ops) = (case step w op of None \<Rightarrow> None | Some w' \<Rightarrow> run w' ops)"

text \<open>
  The code outside the module does not hold the constructor key: its \<^verbatim>\<open>new\<close> passes
  some other value.
\<close>

fun outside :: "op \<Rightarrow> bool" where
  "outside (New pysid key) = (key \<noteq> PRIVATE_CONSTRUCTOR_KEY)"
| "outside other = True"

text \<open>
  The calls whose assignment replaces the prototype of a store: the model has no result
  for these, and for no others (\<open>step_None_iff\<close> below).
\<close>

fun replaces_prototype :: "op \<Rightarrow> bool" where
  "replaces_prototype (New pysid key) =
     (key = PRIVATE_CONSTRUCTOR_KEY \<and> get_uuid_ref pysid = Inr ''__proto__'')"
| "replaces_prototype (AddState this name stateObject stateSetterObject) =
     (name = ''__proto__'')"
| "replaces_prototype (AddRef this name val) =
     (name = ''__proto__'' \<and> (typeof val = ''object'' \<or> typeof val = ''function''))"
| "replaces_prototype (AddFunc this name funcObject) =
     (name = ''__proto__'' \<and> typeof funcObject = ''function'')"
| "replaces_prototype other = False"

text \<open>The readiness signal of a function name is resolved.\<close>

definition is_ready :: "signals world \<Rightarrow> addr \<Rightarrow> string \<Rightarrow> bool" where
  "is_ready w this name =
     (case promise (instances w this) name of None \<Rightarrow> False | Some d \<Rightarrow> settled d)"

text \<open>The calls that are suspended on the signal of a function name.\<close>

definition suspended :: "signals world \<Rightarrow> addr \<Rightarrow> string \<Rightarrow> frame list" where
  "suspended w this name =
     (case promise (instances w this) name of None \<Rightarrow> [] | Some d \<Rightarrow> reactions d)"

subsection \<open>The class of assets/pysbridge.js, with one readiness signal for the instance\<close>

type_synonym single = "frame deferred"

definition constructor_single :: "single world \<Rightarrow> jsval \<Rightarrow> single world outcome" where
  "constructor_single w pysid =
     (case get_uuid_ref pysid of
        Inl e \<Rightarrow> Thrown w e
      | Inr uuid \<Rightarrow>
          (case assign_object (pysBridge w) uuid (fresh w) of
             None \<Rightarrow> Unmodelled
           | Some registry \<Rightarrow>
               Done (w\<lparr>instances := (instances w)(fresh w := new_bridge createPromise),
                       pysBridge := registry,
                       fresh := Suc (fresh w)\<rparr>)
                    (Inst (fresh w))))"

text \<open>The method has no \<^verbatim>\<open>else\<close>: with an instance already stored it returns nothing.\<close>

definition create_pys_bridge_single :: "single world \<Rightarrow> jsval \<Rightarrow> single world outcome" where
  "create_pys_bridge_single w pysid =
     (case get_uuid_ref pysid of
        Inl e \<Rightarrow> Thrown w e
      | Inr uuid \<Rightarrow>
          (if typeof_slot (slot (pysBridge w) uuid) = ''undefined''
           then constructor_single w (Str uuid)
           else Done w Undefined))"

definition resolve_single :: "single world \<Rightarrow> addr \<Rightarrow> single world" where
  "resolve_single w this =
     (let (d, released) = resolve_promise (promise (instances w this))
      in (update_this w this (\<lambda>b. b\<lparr>promise := d\<rparr>))\<lparr>jobs := jobs w @ released\<rparr>)"






section \<open>The flat API on globalThis\<close>

text \<open>
  A continuation that waits on a named promise is the rest of a \<^verbatim>\<open>pys_call_func\<close>
  (the function name and the arguments) or an outside task that called \<^verbatim>\<open>pys_wait\<close>
  itself.
\<close>

datatype pys_frame = CallFrame string "jsval list" | WaitFrame nat

record pys_global =
  pysPromises :: "string \<rightharpoonup> pys_frame deferred"
  pysStates :: "string \<rightharpoonup> state_entry"
  pysRefs :: "string \<rightharpoonup> jsval"
  pysFunctions :: "string \<rightharpoonup> jsval"
  pys_jobs :: "pys_frame job list"
  pys_trace :: "event list"

definition pys_init :: pys_global where
  "pys_init =
     \<lparr>pysPromises = Map.empty, pysStates = Map.empty, pysRefs = Map.empty,
      pysFunctions = Map.empty, pys_jobs = [], pys_trace = []\<rparr>"

definition pys_promise :: "pys_global \<Rightarrow> string \<Rightarrow> pys_global" where
  "pys_promise g promiseName =
     g\<lparr>pysPromises := ensure_promise (pysPromises g) promiseName\<rparr>"

text \<open>
  \<^verbatim>\<open>pys_wait\<close> and \<^verbatim>\<open>pys_resolve\<close> test the entry themselves before they call
  \<^verbatim>\<open>pys_promise\<close>, which tests it again.
\<close>

definition pys_wait :: "pys_global \<Rightarrow> string \<Rightarrow> pys_frame \<Rightarrow> pys_global" where
  "pys_wait g promiseName k =
     (let g1 = (if typeof_slot (slot (pysPromises g) promiseName) = ''undefined''
                then pys_promise g promiseName else g)
      in case slot (pysPromises g1) promiseName of
           Own d \<Rightarrow>
             (let (d', ready) = await_promise d k
              in g1\<lparr>pysPromises := (pysPromises g1)(promiseName \<mapsto> d'),
                     pys_jobs := pys_jobs g1 @ ready\<rparr>)
         | Inherit v \<Rightarrow> g1\<lparr>pys_jobs := pys_jobs g1 @ [ResumeWait k]\<rparr>)"

definition pys_resolve :: "pys_global \<Rightarrow> string \<Rightarrow> pys_global outcome" where
  "pys_resolve g promiseName =
     (let g1 = (if typeof_slot (slot (pysPromises g) promiseName) = ''undefined''
                then pys_promise g promiseName else g)
      in case slot (pysPromises g1) promiseName of
           Own d \<Rightarrow>
             (let (d', released) = resolve_promise d
              in Done (g1\<lparr>pysPromises := (pysPromises g1)(promiseName \<mapsto> d'),
                           pys_jobs := pys_jobs g1 @ released\<rparr>)
                      Undefined)
         | Inherit v \<Rightarrow> Thrown g1 (TypeError ''resolve is not a function''))"

definition pys_register_state ::
    "pys_global \<Rightarrow> string \<Rightarrow> jsval \<Rightarrow> jsval \<Rightarrow> pys_global outcome" where
  "pys_register_state g stateName stateObject stateSetterObject =
     (case assign_object (pysStates g) stateName
             \<lparr>getter = stateObject, setter = stateSetterObject\<rparr> of
        None \<Rightarrow> Unmodelled
      | Some st \<Rightarrow> Done (g\<lparr>pysStates := st\<rparr>) Undefined)"

definition pys_register_ref :: "pys_global \<Rightarrow> string \<Rightarrow> jsval \<Rightarrow> pys_global outcome" where
  "pys_register_ref g refName refObject =
     (case assign (pysRefs g) refName refObject of
        None \<Rightarrow> Unmodelled
      | Some r \<Rightarrow> Done (g\<lparr>pysRefs := r\<rparr>) Undefined)"

definition pys_func :: "pys_global \<Rightarrow> string \<Rightarrow> jsval \<Rightarrow> pys_global outcome" where
  "pys_func g functionName functionObject =
     (case assign (pysFunctions g) functionName functionObject of
        None \<Rightarrow> Unmodelled
      | Some f \<Rightarrow> Done (g\<lparr>pysFunctions := f\<rparr>) Undefined)"

definition pys_get :: "pys_global \<Rightarrow> string \<Rightarrow> error + jsval" where
  "pys_get g stateName =
     (if typeof_slot (slot (pysStates g) stateName) \<noteq> ''undefined''
      then (case slot (pysStates g) stateName of
              Own entry \<Rightarrow> Inr (getter entry)
            | Inherit v \<Rightarrow> Inr Undefined)
      else Inl (Error (''State '' @ stateName @ '' not found.'')))"

definition pys_set :: "pys_global \<Rightarrow> string \<Rightarrow> jsval \<Rightarrow> pys_global outcome" where
  "pys_set g stateName val =
     (if typeof_slot (slot (pysStates g) stateName) \<noteq> ''undefined''
      then (case invoke (pys_trace g)
                   (case slot (pysStates g) stateName of
                      Own entry \<Rightarrow> setter entry
                    | Inherit v \<Rightarrow> Undefined)
                   [val] of
              Inl e \<Rightarrow> Thrown g e
            | Inr tr \<Rightarrow> Done (g\<lparr>pys_trace := tr\<rparr>) Undefined)
      else Thrown g (Error (''State '' @ stateName @ '' not found.'')))"

definition pys_ref :: "pys_global \<Rightarrow> string \<Rightarrow> error + jsval" where
  "pys_ref g refName =
     (if typeof (lookup (pysRefs g) refName) \<noteq> ''undefined''
      then Inr (lookup (pysRefs g) refName)
      else Inl (Error (''Ref '' @ refName @ '' not found.'')))"

text \<open>
  The second half of \<^verbatim>\<open>pys_call_func\<close>, from the test of the stored value on. It runs
  at once when there is no wait, and as a job of the event loop after a wait.
\<close>

definition pys_call_stored :: "pys_global \<Rightarrow> string \<Rightarrow> jsval list \<Rightarrow> pys_global" where
  "pys_call_stored g functionName args =
     (if typeof (lookup (pysFunctions g) functionName) = ''function''
      then (case invoke (pys_trace g) (lookup (pysFunctions g) functionName) args of
              Inl e \<Rightarrow> g\<lparr>pys_trace := pys_trace g @ [Rejected e]\<rparr>
            | Inr tr \<Rightarrow> g\<lparr>pys_trace := tr\<rparr>)
      else g\<lparr>pys_trace := pys_trace g @
                [Rejected (Error (''Function '' @ functionName @ '' not function.''))]\<rparr>)"

text \<open>
  An omitted \<^verbatim>\<open>promiseName\<close> is \<^verbatim>\<open>undefined\<close>. Past the guard the value is a
  string, the name of the promise.
\<close>

definition pys_call_func ::
    "pys_global \<Rightarrow> string \<Rightarrow> jsval \<Rightarrow> jsval list \<Rightarrow> pys_global" where
  "pys_call_func g functionName promiseName args =
     (if typeof promiseName = ''string'' \<and> promiseName \<noteq> Str ''''
      then (case promiseName of
              Str s \<Rightarrow> pys_wait g s (CallFrame functionName args)
            | other \<Rightarrow> pys_call_stored g functionName args)
      else pys_call_stored g functionName args)"

fun pys_run_job :: "pys_frame job \<Rightarrow> pys_global \<Rightarrow> pys_global" where
  "pys_run_job (ResumeWait (CallFrame functionName args)) g =
     g\<lparr>pys_jobs := pys_jobs g @ [ResumeCall (CallFrame functionName args)]\<rparr>"
| "pys_run_job (ResumeWait (WaitFrame k)) g = g\<lparr>pys_trace := pys_trace g @ [Woken k]\<rparr>"
| "pys_run_job (ResumeCall (CallFrame functionName args)) g =
     pys_call_stored g functionName args"
| "pys_run_job (ResumeCall (WaitFrame k)) g = g"


text \<open>The calls of the flat API that change the global state, and the event loop.\<close>

datatype pys_op =
    PysPromise string
  | PysWait string nat
  | PysResolve string
  | PysRegisterState string jsval jsval
  | PysRegisterRef string jsval
  | PysFunc string jsval
  | PysSet string jsval
  | PysCallFunc string jsval "jsval list"
  | PysTick

fun pys_step :: "pys_global \<Rightarrow> pys_op \<Rightarrow> pys_global option" where
  "pys_step g (PysPromise promiseName) = Some (pys_promise g promiseName)"
| "pys_step g (PysWait promiseName k) = Some (pys_wait g promiseName (WaitFrame k))"
| "pys_step g (PysResolve promiseName) = after (pys_resolve g promiseName)"
| "pys_step g (PysRegisterState stateName stateObject stateSetterObject) =
     after (pys_register_state g stateName stateObject stateSetterObject)"
| "pys_step g (PysRegisterRef refName refObject) = after (pys_register_ref g refName refObject)"
| "pys_step g (PysFunc functionName functionObject) =
     after (pys_func g functionName functionObject)"
| "pys_step g (PysSet stateName val) = after (pys_set g stateName val)"
| "pys_step g (PysCallFunc functionName promiseName args) =
     Some (pys_call_func g functionName promiseName args)"
| "pys_step g PysTick =
     Some (case pys_jobs g of [] \<Rightarrow> g | j # js \<Rightarrow> pys_run_job j (g\<lparr>pys_jobs := js\<rparr>))"

fun pys_run :: "pys_global \<Rightarrow> pys_op list \<Rightarrow> pys_global option" where
  "pys_run g [] = Some g"
| "pys_run g (op # ops) = (case pys_step g op of None \<Rightarrow> None | Some g' \<Rightarrow> pys_run g' ops)"

fun pys_replaces_prototype :: "pys_op \<Rightarrow> bool" where
  "pys_replaces_prototype (PysRegisterState stateName stateObject stateSetterObject) =
     (stateName = ''__proto__'')"
| "pys_replaces_prototype (PysRegisterRef refName refObject) =
     (refName = ''__proto__'' \<and> (typeof refObject = ''object'' \<or> typeof refObject = ''function''))"
| "pys_replaces_prototype (PysFunc functionName functionObject) =
     (functionName = ''__proto__''
      \<and> (typeof functionObject = ''object'' \<or> typeof functionObject = ''function''))"
| "pys_replaces_prototype other = False"

definition pys_resolved :: "pys_global \<Rightarrow> string \<Rightarrow> bool" where
  "pys_resolved g promiseName =
     (case pysPromises g promiseName of None \<Rightarrow> False | Some d \<Rightarrow> settled d)"

text \<open>The continuations that are parked on a named promise of the flat API.\<close>

definition pys_suspended :: "pys_global \<Rightarrow> string \<Rightarrow> pys_frame list" where
  "pys_suspended g promiseName =
     (case pysPromises g promiseName of None \<Rightarrow> [] | Some d \<Rightarrow> reactions d)"

section \<open>What the event loop does with a queue\<close>

text \<open>
  The frames of a queue whose caller is resumed next (\<open>queued_calls\<close>) and the frames
  whose wait function is resumed next (\<open>queued_waits\<close>), in the order of the queue.
\<close>

fun queued_calls :: "'f job list \<Rightarrow> 'f list" where
  "queued_calls [] = []"
| "queued_calls (ResumeCall k # js) = k # queued_calls js"
| "queued_calls (ResumeWait k # js) = queued_calls js"

fun queued_waits :: "'f job list \<Rightarrow> 'f list" where
  "queued_waits [] = []"
| "queued_waits (ResumeCall k # js) = queued_waits js"
| "queued_waits (ResumeWait k # js) = k # queued_waits js"

text \<open>The events of the second half of a call, in each of the three variants.\<close>

fun call_events :: "'p world \<Rightarrow> frame \<Rightarrow> event list" where
  "call_events w (Frame this name args) =
     (if typeof (lookup (funcs (instances w this)) name) = ''function''
      then [Invoked (lookup (funcs (instances w this)) name) args]
      else [])"

fun call_events_single :: "'p world \<Rightarrow> frame \<Rightarrow> event list" where
  "call_events_single w (Frame this name args) =
     (if typeof (lookup (funcs (instances w this)) name) = ''function''
      then [Invoked (lookup (funcs (instances w this)) name) args]
      else [Rejected (Error (''Function '' @ name @ '' not function.''))])"

fun pys_call_events :: "pys_global \<Rightarrow> pys_frame \<Rightarrow> event list" where
  "pys_call_events g (CallFrame functionName args) =
     (if typeof (lookup (pysFunctions g) functionName) = ''function''
      then [Invoked (lookup (pysFunctions g) functionName) args]
      else [Rejected (Error (''Function '' @ functionName @ '' not function.''))])"
| "pys_call_events g (WaitFrame n) = []"

text \<open>The events of one job of the flat API at its own turn.\<close>

fun pys_turn_events :: "pys_global \<Rightarrow> pys_frame job \<Rightarrow> event list" where
  "pys_turn_events g (ResumeCall k) = pys_call_events g k"
| "pys_turn_events g (ResumeWait (WaitFrame n)) = [Woken n]"
| "pys_turn_events g (ResumeWait (CallFrame functionName args)) = []"

section \<open>Invariants and example processes\<close>


text \<open>Every instance that was constructed is stored in \<^verbatim>\<open>#pysBridge\<close> under some id.\<close>

definition recorded :: "'p world \<Rightarrow> bool" where
  "recorded w = (\<forall>a<fresh w. \<exists>uuid. pysBridge w uuid = Some a)"


text \<open>A new process in which \<^verbatim>\<open>create_pys_bridge("a")\<close> has run, for each class.\<close>

definition signals_a :: "signals world" where
  "signals_a =
     (case create_pys_bridge (init_world Map.empty) (Str ''a'') of
        Done w v \<Rightarrow> w
      | Thrown w e \<Rightarrow> w
      | Unmodelled \<Rightarrow> init_world Map.empty)"

definition single_a :: "single world" where
  "single_a =
     (case create_pys_bridge_single (init_world createPromise) (Str ''a'') of
        Done w v \<Rightarrow> w
      | Thrown w e \<Rightarrow> w
      | Unmodelled \<Rightarrow> init_world createPromise)"

section \<open>Properties\<close>


subsection \<open>Reading typeof and the stores\<close>

lemma typeof_undefined_iff: "typeof v = ''undefined'' \<longleftrightarrow> v = Undefined"
  by (cases v) auto

lemma typeof_inherited: "typeof (inherited name) = ''undefined'' \<longleftrightarrow> plain name"
  by (simp add: plain_def typeof_undefined_iff)

lemma plain_not_proto: "plain name \<Longrightarrow> name \<noteq> ''__proto__''"
  by (auto simp: plain_def inherited_def)

lemma lookup_plain:
  "plain name \<Longrightarrow> lookup obj name = (case obj name of Some v \<Rightarrow> v | None \<Rightarrow> Undefined)"
  by (simp add: lookup_def plain_def split: option.splits)

lemma lookup_own [simp]: "lookup (obj(name \<mapsto> v)) name = v"
  by (simp add: lookup_def)

lemma slot_own [simp]: "slot (obj(name \<mapsto> v)) name = Own v"
  by (simp add: slot_def)

lemma typeof_slot_undefined_iff:
  "typeof_slot (slot obj name) = ''undefined'' \<longleftrightarrow> obj name = None \<and> plain name"
  by (simp add: slot_def typeof_inherited split: option.splits)

lemma assign_not_proto: "name \<noteq> ''__proto__'' \<Longrightarrow> assign obj name v = Some (obj(name \<mapsto> v))"
  by (simp add: assign_def)

lemma assign_object_not_proto:
  "name \<noteq> ''__proto__'' \<Longrightarrow> assign_object obj name v = Some (obj(name \<mapsto> v))"
  by (simp add: assign_object_def)

lemma get_uuid_ref_idem:
  "get_uuid_ref pysid = Inr uuid \<Longrightarrow> get_uuid_ref (Str uuid) = Inr uuid"
  by (cases pysid) (auto simp: pysBridgeGlobalName_def split: if_splits)

lemma get_uuid_ref_not_string:
  "typeof pysid \<noteq> ''string'' \<Longrightarrow> get_uuid_ref pysid = Inl (Error ''UUID must be a string.'')"
  by (cases pysid) simp_all

lemma update_this_same [simp]:
  "update_this w this (\<lambda>b. b\<lparr>promise := promise (instances w this)\<rparr>) = w"
  "update_this w this (\<lambda>b. b\<lparr>refs := refs (instances w this)\<rparr>) = w"
  by (simp_all add: update_this_def)

subsection \<open>Resolving and awaiting\<close>

lemma deferred_updates [simp]:
  "d\<lparr>settled := a, reactions := r\<rparr> = \<lparr>settled = a, reactions = r\<rparr>"
  "\<not> settled d \<Longrightarrow> d\<lparr>reactions := r\<rparr> = \<lparr>settled = False, reactions = r\<rparr>"
  by (cases d; simp)+

lemma ensure_promise_eq:
  "ensure_promise tbl n = (if tbl n = None \<and> plain n then tbl(n \<mapsto> createPromise) else tbl)"
  by (simp add: ensure_promise_def typeof_slot_undefined_iff)

lemma resolve_eq:
  "resolve w this name =
     (if is_ready w this name then Done w Undefined
      else if plain name \<or> promise (instances w this) name \<noteq> None
      then Done ((update_this w this
                    (\<lambda>b. b\<lparr>promise := (promise b)(name \<mapsto> \<lparr>settled = True, reactions = []\<rparr>)\<rparr>))
                   \<lparr>jobs := jobs w @ map ResumeWait (suspended w this name)\<rparr>)
                Undefined
      else Thrown w (TypeError ''resolve is not a function''))"
  by (auto simp: resolve_def is_ready_def suspended_def resolve_promise_def ensure_promise_eq
      createPromise_def update_this_def fun_upd_idem slot_def split: option.splits)

lemma wait_eq:
  "wait w this name k =
     (if is_ready w this name then w\<lparr>jobs := jobs w @ [ResumeWait k]\<rparr>
      else if plain name \<or> promise (instances w this) name \<noteq> None
      then update_this w this
             (\<lambda>b. b\<lparr>promise := (promise b)(name \<mapsto>
                      \<lparr>settled = False, reactions = suspended w this name @ [k]\<rparr>)\<rparr>)
      else w\<lparr>jobs := jobs w @ [ResumeWait k]\<rparr>)"
  by (auto simp: wait_def is_ready_def suspended_def await_promise_def ensure_promise_eq
      createPromise_def update_this_def fun_upd_idem slot_def split: option.splits)

lemma add_func_eq:
  "typeof p = ''function'' \<Longrightarrow> name \<noteq> ''__proto__'' \<Longrightarrow>
     add_func w this name p =
       resolve (update_this w this (\<lambda>b. b\<lparr>funcs := (funcs b)(name \<mapsto> p)\<rparr>)) this name"
  by (simp add: add_func_def assign_def update_this_def)

lemma add_func_not_function:
  "typeof p \<noteq> ''function'' \<Longrightarrow>
     add_func w this name p = Thrown w (Error ''Function must be a function.'')"
  by (simp add: add_func_def)

lemma add_func_proto:
  "typeof p = ''function'' \<Longrightarrow> add_func w this ''__proto__'' p = Unmodelled"
  by (simp add: add_func_def assign_def)

subsection \<open>The event loop\<close>

lemma run_job_call: "run_job (ResumeCall k) w = w\<lparr>trace := trace w @ call_events w k\<rparr>"
  by (cases k) (simp add: invoke_def)

lemma call_events_cong:
  assumes "\<And>a. funcs (instances w' a) = funcs (instances w a)"
  shows "call_events w' = call_events w"
proof
  fix k show "call_events w' k = call_events w k"
    using assms by (cases k) simp
qed

lemma call_events_frame [simp]:
  "call_events (w\<lparr>jobs := js\<rparr>) = call_events w"
  "call_events (w\<lparr>trace := tr\<rparr>) = call_events w"
  by (rule call_events_cong, simp)+

lemma run_job_frame [simp]:
  "instances (run_job j w) = instances w"
  "pysBridge (run_job j w) = pysBridge w"
  "fresh (run_job j w) = fresh w"
  by (cases j; simp add: run_job_call)+






lemma queued_map_ResumeWait [simp]:
  "queued_calls (map ResumeWait ks) = []" "queued_waits (map ResumeWait ks) = ks"
  by (induction ks) auto


subsection \<open>Creating an instance\<close>

lemma create_pys_bridge_existing:
  assumes "get_uuid_ref pysid = Inr uuid" and "pysBridge w uuid = Some a"
  shows "create_pys_bridge w pysid = Done w (Inst a)"
  using assms by (simp add: create_pys_bridge_def slot_def)

lemma create_pys_bridge_new:
  assumes "get_uuid_ref pysid = Inr uuid" and "pysBridge w uuid = None" and "plain uuid"
  shows "create_pys_bridge w pysid =
           Done (w\<lparr>instances := (instances w)(fresh w := new_bridge Map.empty),
                    pysBridge := (pysBridge w)(uuid \<mapsto> fresh w),
                    fresh := Suc (fresh w)\<rparr>) (Inst (fresh w))"
  using assms get_uuid_ref_idem [OF assms(1)] plain_not_proto [OF assms(3)]
  by (simp add: create_pys_bridge_def constructor_def typeof_slot_undefined_iff
      assign_object_def)

lemma create_pys_bridge_inherited:
  assumes "get_uuid_ref pysid = Inr uuid" and "pysBridge w uuid = None" and "\<not> plain uuid"
  shows "create_pys_bridge w pysid = Done w (inherited uuid)"
  using assms by (simp add: create_pys_bridge_def slot_def typeof_inherited)

lemma create_pys_bridge_modelled: "create_pys_bridge w pysid \<noteq> Unmodelled"
proof (cases "get_uuid_ref pysid")
  case (Inl e)
  then show ?thesis by (simp add: create_pys_bridge_def)
next
  case (Inr uuid)
  show ?thesis
  proof (cases "pysBridge w uuid")
    case None
    then show ?thesis
      using create_pys_bridge_new [OF Inr None] create_pys_bridge_inherited [OF Inr None]
      by (cases "plain uuid") simp_all
  next
    case (Some a)
    then show ?thesis using create_pys_bridge_existing [OF Inr Some] by simp
  qed
qed

lemma create_pys_bridge_twice_same:
  assumes "create_pys_bridge w (Str pysid) = Done w1 r1"
  shows "create_pys_bridge w1 (Str pysid) = Done w1 r1"
proof -
  let ?uuid = "if pysid = [] then pysBridgeGlobalName else pysid"
  have uuid: "get_uuid_ref (Str pysid) = Inr ?uuid" by simp
  show ?thesis
  proof (cases "pysBridge w ?uuid")
    case (Some a)
    from create_pys_bridge_existing [OF uuid Some] assms show ?thesis by auto
  next
    case None
    show ?thesis
    proof (cases "plain ?uuid")
      case True
      from create_pys_bridge_new [OF uuid None True] assms
      have w1: "pysBridge w1 ?uuid = Some (fresh w)" and r1: "r1 = Inst (fresh w)"
        by auto
      from create_pys_bridge_existing [OF uuid w1] r1 show ?thesis by simp
    next
      case False
      from create_pys_bridge_inherited [OF uuid None False] assms show ?thesis by auto
    qed
  qed
qed

lemma create_pys_bridge_default_same:
  "create_pys_bridge w (Str []) = create_pys_bridge w (Str pysBridgeGlobalName)"
  by (simp add: create_pys_bridge_def pysBridgeGlobalName_def)

lemma create_pys_bridge_single_existing:
  assumes "get_uuid_ref pysid = Inr uuid" and "pysBridge w uuid = Some a"
  shows "create_pys_bridge_single w pysid = Done w Undefined"
  using assms by (simp add: create_pys_bridge_single_def slot_def)

subsection \<open>Calls in the class with one signal for each name\<close>





subsection \<open>Invariants of the class with one signal for each name\<close>

lemma constructor_without_key:
  "key \<noteq> PRIVATE_CONSTRUCTOR_KEY \<Longrightarrow>
     constructor w pysid key = Thrown w (Error ''Cannot instantiate PysBridge directly.'')"
  by (simp add: constructor_def)

lemma constructor_success:
  assumes "constructor w pysid key = Done w' this"
  shows "key = PRIVATE_CONSTRUCTOR_KEY"
    and "this = Inst (fresh w)"
    and "fresh w' = Suc (fresh w)"
    and "\<exists>uuid. get_uuid_ref pysid = Inr uuid \<and> pysBridge w' uuid = Some (fresh w)"
  using assms
  by (auto simp: constructor_def assign_object_def split: if_splits sum.splits)

lemma create_pys_bridge_cases:
  assumes "after (create_pys_bridge w pysid) = Some w'"
  obtains
    (Same) "w' = w"
  | (Made) uuid where "get_uuid_ref pysid = Inr uuid" "pysBridge w uuid = None" "plain uuid"
      "w' = w\<lparr>instances := (instances w)(fresh w := new_bridge Map.empty),
               pysBridge := (pysBridge w)(uuid \<mapsto> fresh w),
               fresh := Suc (fresh w)\<rparr>"
proof (cases "get_uuid_ref pysid")
  case (Inl e)
  with assms have "w' = w" by (simp add: create_pys_bridge_def)
  then show ?thesis by (rule Same)
next
  case (Inr uuid)
  show ?thesis
  proof (cases "pysBridge w uuid")
    case (Some a)
    from create_pys_bridge_existing [OF Inr Some] assms have "w' = w" by simp
    then show ?thesis by (rule Same)
  next
    case None
    show ?thesis
    proof (cases "plain uuid")
      case True
      from create_pys_bridge_new [OF Inr None True] assms
      have "w' = w\<lparr>instances := (instances w)(fresh w := new_bridge Map.empty),
               pysBridge := (pysBridge w)(uuid \<mapsto> fresh w),
               fresh := Suc (fresh w)\<rparr>"
        by simp
      with Inr None True show ?thesis by (rule Made)
    next
      case False
      from create_pys_bridge_inherited [OF Inr None False] assms have "w' = w" by simp
      then show ?thesis by (rule Same)
    qed
  qed
qed

lemma constructor_cases:
  assumes "after (constructor w pysid key) = Some w'"
  obtains
    (Same) "w' = w"
  | (Made) uuid where "key = PRIVATE_CONSTRUCTOR_KEY" "get_uuid_ref pysid = Inr uuid"
      "w' = w\<lparr>instances := (instances w)(fresh w := new_bridge Map.empty),
               pysBridge := (pysBridge w)(uuid \<mapsto> fresh w),
               fresh := Suc (fresh w)\<rparr>"
  using assms
  by (auto simp: constructor_def assign_object_def split: if_splits sum.splits)

lemma resolve_cases:
  assumes "after (resolve w this name) = Some w'"
  obtains
    (Ready) "is_ready w this name" "w' = w"
  | (Thrown) "\<not> plain name" "\<not> is_ready w this name" "w' = w"
  | (Resolved) "\<not> is_ready w this name"
      "w' = (update_this w this
               (\<lambda>b. b\<lparr>promise := (promise b)(name \<mapsto> \<lparr>settled = True, reactions = []\<rparr>)\<rparr>))
              \<lparr>jobs := jobs w @ map ResumeWait (suspended w this name)\<rparr>"
  using assms by (auto simp: resolve_eq split: if_splits)

lemma wait_cases:
  obtains
    (Queued) "wait w this name k = w\<lparr>jobs := jobs w @ [ResumeWait k]\<rparr>"
  | (Parked) "\<not> is_ready w this name"
      "wait w this name k =
         update_this w this
           (\<lambda>b. b\<lparr>promise := (promise b)(name \<mapsto>
                    \<lparr>settled = False, reactions = suspended w this name @ [k]\<rparr>)\<rparr>)"
proof (cases "is_ready w this name")
  case True
  then have "wait w this name k = w\<lparr>jobs := jobs w @ [ResumeWait k]\<rparr>"
    by (simp add: wait_eq)
  then show ?thesis by (rule Queued)
next
  case False
  show ?thesis
  proof (cases "plain name \<or> promise (instances w this) name \<noteq> None")
    case True
    with False have "wait w this name k =
         update_this w this
           (\<lambda>b. b\<lparr>promise := (promise b)(name \<mapsto>
                    \<lparr>settled = False, reactions = suspended w this name @ [k]\<rparr>)\<rparr>)"
      by (simp add: wait_eq)
    with False show ?thesis by (rule Parked)
  next
    case no: False
    with False have "wait w this name k = w\<lparr>jobs := jobs w @ [ResumeWait k]\<rparr>"
      by (simp add: wait_eq)
    then show ?thesis by (rule Queued)
  qed
qed

lemma step_cases:
  assumes "step w op = Some w'"
  obtains
    (Same) "w' = w"
  | (Made) uuid where
      "w' = w\<lparr>instances := (instances w)(fresh w := new_bridge Map.empty),
               pysBridge := (pysBridge w)(uuid \<mapsto> fresh w),
               fresh := Suc (fresh w)\<rparr>"
      "(\<exists>pysid. op = Create pysid \<and> pysBridge w uuid = None)
       \<or> (\<exists>pysid. op = New pysid PRIVATE_CONSTRUCTOR_KEY)"
  | (AddState) a n g s st where "op = AddState a n g s"
      "w' = update_this w a (\<lambda>b. b\<lparr>states := st\<rparr>)"
  | (SetState) a n v tr where "op = SetState a n v" "w' = w\<lparr>trace := tr\<rparr>"
  | (AddRef) a n v r where "op = AddRef a n v" "w' = update_this w a (\<lambda>b. b\<lparr>refs := r\<rparr>)"
  | (AddFunc) a n p where "op = AddFunc a n p" "typeof p = ''function''" "n \<noteq> ''__proto__''"
      "after (resolve (update_this w a (\<lambda>b. b\<lparr>funcs := (funcs b)(n \<mapsto> p)\<rparr>)) a n) = Some w'"
  | (CallFunc) a n args where "op = CallFunc a n args" "w' = wait w a n (Frame a n args)"
  | (Tick) j js where "op = Tick" "jobs w = j # js" "w' = run_job j (w\<lparr>jobs := js\<rparr>)"
proof (cases op)
  case (Create pysid)
  with assms have "after (create_pys_bridge w pysid) = Some w'" by simp
  then show ?thesis
  proof (cases rule: create_pys_bridge_cases)
    case Same
    then show ?thesis by (rule that(1))
  next
    case (Made uuid)
    with Create show ?thesis by (intro that(2) [of uuid]) auto
  qed
next
  case (New pysid key)
  with assms have "after (constructor w pysid key) = Some w'" by simp
  then show ?thesis
  proof (cases rule: constructor_cases)
    case Same
    then show ?thesis by (rule that(1))
  next
    case (Made uuid)
    with New show ?thesis by (intro that(2) [of uuid]) auto
  qed
next
  case (AddState a n g s)
  with assms that(3) show ?thesis
    by (auto simp: add_state_def split: option.splits)
next
  case (SetState a n v)
  with assms that(4) [of a n v "trace w"] that(4) show ?thesis
    by (auto simp: set_state_def split: if_splits sum.splits)
next
  case (AddRef a n v)
  with assms that(5) show ?thesis
    by (auto simp: add_ref_def split: option.splits)
next
  case (AddFunc a n p)
  show ?thesis
  proof (cases "typeof p = ''function''")
    case False
    with AddFunc assms have "w' = w" by (simp add: add_func_not_function)
    then show ?thesis by (rule that(1))
  next
    case True
    with AddFunc assms have "n \<noteq> ''__proto__''"
      by (auto simp: add_func_proto)
    with True AddFunc assms that(6) show ?thesis by (simp add: add_func_eq)
  qed
next
  case (CallFunc a n args)
  with assms that(7) show ?thesis by (simp add: call_func_def)
next
  case Tick
  show ?thesis
  proof (cases "jobs w")
    case Nil
    with assms Tick have "w' = w" by simp
    then show ?thesis by (rule that(1))
  next
    case (Cons j js)
    with assms Tick have "w' = run_job j (w\<lparr>jobs := js\<rparr>)" by simp
    with Tick Cons show ?thesis by (rule that(8))
  qed
qed

lemma is_ready_step:
  assumes "this < fresh w" and "is_ready w this name" and "step w op = Some w'"
  shows "is_ready w' this name \<and> this < fresh w'"
  using assms(3)
proof (cases rule: step_cases)
  case (AddFunc a n p)
  from AddFunc(4) assms(1,2) show ?thesis
    by (cases rule: resolve_cases) (auto simp: update_this_def is_ready_def)
next
  case (CallFunc a n args)
  with assms(1,2) show ?thesis
    by (cases rule: wait_cases [of w a n "Frame a n args"])
       (auto simp: update_this_def is_ready_def)
next
  case (Tick j js)
  with assms(1,2) show ?thesis by (simp add: is_ready_def)
qed (use assms(1,2) in \<open>auto simp: update_this_def is_ready_def\<close>)

lemma is_ready_run:
  "this < fresh w \<Longrightarrow> is_ready w this name \<Longrightarrow> run w ops = Some w' \<Longrightarrow> is_ready w' this name"
proof (induction ops arbitrary: w)
  case Nil
  then show ?case by simp
next
  case (Cons op ops)
  from Cons.prems(3) obtain w1 where w1: "step w op = Some w1" and rest: "run w1 ops = Some w'"
    by (auto split: option.splits)
  from is_ready_step [OF Cons.prems(1,2) w1] Cons.IH [OF _ _ rest]
  show ?case by simp
qed




lemma recorded_init: "recorded (init_world p)"
  by (simp add: recorded_def init_world_def)

lemma recorded_made:
  assumes "recorded w" and "pysBridge w uuid = None"
  shows "recorded (w\<lparr>instances := (instances w)(fresh w := b),
                     pysBridge := (pysBridge w)(uuid \<mapsto> fresh w),
                     fresh := Suc (fresh w)\<rparr>)"
  unfolding recorded_def
proof (intro allI impI)
  fix a
  assume "a < fresh (w\<lparr>instances := (instances w)(fresh w := b),
                       pysBridge := (pysBridge w)(uuid \<mapsto> fresh w),
                       fresh := Suc (fresh w)\<rparr>)"
  then have "a < fresh w \<or> a = fresh w" by auto
  then show "\<exists>u. pysBridge (w\<lparr>instances := (instances w)(fresh w := b),
                       pysBridge := (pysBridge w)(uuid \<mapsto> fresh w),
                       fresh := Suc (fresh w)\<rparr>) u = Some a"
  proof
    assume "a < fresh w"
    with assms(1) obtain u where u: "pysBridge w u = Some a"
      by (auto simp: recorded_def)
    with assms(2) have "u \<noteq> uuid" by auto
    with u show ?thesis by auto
  next
    assume "a = fresh w"
    then show ?thesis by auto
  qed
qed

lemma recorded_step:
  assumes "recorded w" and "outside op" and "step w op = Some w'"
  shows "recorded w'"
  using assms(3)
proof (cases rule: step_cases)
  case (Made uuid)
  from Made(2) assms(2) have "pysBridge w uuid = None" by auto
  with assms(1) Made(1) show ?thesis by (simp add: recorded_made)
next
  case (AddFunc a n p)
  from AddFunc(4) assms(1) show ?thesis
    by (cases rule: resolve_cases) (auto simp: recorded_def update_this_def)
next
  case (CallFunc a n args)
  with assms(1) show ?thesis
    by (cases rule: wait_cases [of w a n "Frame a n args"])
       (auto simp: recorded_def update_this_def)
next
  case (Tick j js)
  with assms(1) show ?thesis by (simp add: recorded_def)
qed (use assms(1) in \<open>auto simp: recorded_def update_this_def\<close>)

lemma recorded_run:
  "recorded w \<Longrightarrow> list_all outside ops \<Longrightarrow> run w ops = Some w' \<Longrightarrow> recorded w'"
proof (induction ops arbitrary: w)
  case Nil
  then show ?case by simp
next
  case (Cons op ops)
  from Cons.prems(3) obtain w1 where w1: "step w op = Some w1" and rest: "run w1 ops = Some w'"
    by (auto split: option.splits)
  from Cons.prems(2) have out: "outside op" and outs: "list_all outside ops" by simp_all
  from recorded_step [OF Cons.prems(1) out w1] Cons.IH [OF _ outs rest]
  show ?case by simp
qed

lemma fresh_step_outside:
  assumes "outside op" and "step w op = Some w'" and "fresh w' \<noteq> fresh w"
  shows "\<exists>pysid. op = Create pysid"
  using assms(2)
proof (cases rule: step_cases)
  case (Made uuid)
  with assms(1) show ?thesis by auto
next
  case (AddFunc a n p)
  from AddFunc(4) assms(3) show ?thesis
    by (cases rule: resolve_cases) (auto simp: update_this_def)
next
  case (CallFunc a n args)
  with assms(3) show ?thesis
    by (cases rule: wait_cases [of w a n "Frame a n args"]) (auto simp: update_this_def)
next
  case (Tick j js)
  with assms(3) show ?thesis by simp
qed (use assms(3) in \<open>auto simp: update_this_def\<close>)




subsection \<open>The flat API\<close>

lemma pys_resolve_eq:
  "pys_resolve g n =
     (if pys_resolved g n then Done g Undefined
      else if plain n \<or> pysPromises g n \<noteq> None
      then Done (g\<lparr>pysPromises := (pysPromises g)(n \<mapsto> \<lparr>settled = True, reactions = []\<rparr>),
                    pys_jobs := pys_jobs g @ map ResumeWait (pys_suspended g n)\<rparr>)
                Undefined
      else Thrown g (TypeError ''resolve is not a function''))"
  by (auto simp: pys_resolve_def pys_promise_def pys_resolved_def pys_suspended_def
      resolve_promise_def ensure_promise_eq typeof_inherited createPromise_def
      fun_upd_idem slot_def Let_def split: option.splits)

lemma pys_wait_eq:
  "pys_wait g n k =
     (if pys_resolved g n then g\<lparr>pys_jobs := pys_jobs g @ [ResumeWait k]\<rparr>
      else if plain n \<or> pysPromises g n \<noteq> None
      then g\<lparr>pysPromises := (pysPromises g)(n \<mapsto>
               \<lparr>settled = False, reactions = pys_suspended g n @ [k]\<rparr>)\<rparr>
      else g\<lparr>pys_jobs := pys_jobs g @ [ResumeWait k]\<rparr>)"
  by (auto simp: pys_wait_def pys_promise_def pys_resolved_def pys_suspended_def
      await_promise_def ensure_promise_eq typeof_inherited createPromise_def
      fun_upd_idem slot_def Let_def split: option.splits)


lemma pys_call_stored_eq:
  "pys_call_stored g f args = g\<lparr>pys_trace := pys_trace g @ pys_call_events g (CallFrame f args)\<rparr>"
  by (simp add: pys_call_stored_def invoke_def)

lemma pys_call_events_cong:
  assumes "pysFunctions g' = pysFunctions g"
  shows "pys_call_events g' = pys_call_events g"
proof
  fix k show "pys_call_events g' k = pys_call_events g k"
    using assms by (cases k) simp_all
qed

lemma pys_turn_events_cong:
  assumes "pysFunctions g' = pysFunctions g"
  shows "pys_turn_events g' = pys_turn_events g"
proof
  fix j show "pys_turn_events g' j = pys_turn_events g j"
    using pys_call_events_cong [OF assms]
    by (cases "(g, j)" rule: pys_turn_events.cases) simp_all
qed

lemma pys_events_frame [simp]:
  "pys_call_events (g\<lparr>pys_jobs := js\<rparr>) = pys_call_events g"
  "pys_call_events (g\<lparr>pys_trace := tr\<rparr>) = pys_call_events g"
  "pys_call_events (g\<lparr>pysPromises := x\<rparr>) = pys_call_events g"
  "pys_turn_events (g\<lparr>pys_jobs := js\<rparr>) = pys_turn_events g"
  "pys_turn_events (g\<lparr>pys_trace := tr\<rparr>) = pys_turn_events g"
  "pys_turn_events (g\<lparr>pysPromises := x\<rparr>) = pys_turn_events g"
  by (rule pys_call_events_cong pys_turn_events_cong, simp)+


lemma pys_run_job_frame [simp]:
  "pysPromises (pys_run_job j g) = pysPromises g"
  "pysFunctions (pys_run_job j g) = pysFunctions g"
  by (cases "(j, g)" rule: pys_run_job.cases; simp add: pys_call_stored_eq)+





lemma pys_step_cases:
  assumes "pys_step g op = Some g'"
  obtains
    (Same) "g' = g"
  | (Promise) m where "g' = g\<lparr>pysPromises := (pysPromises g)(m \<mapsto> createPromise)\<rparr>"
      "pysPromises g m = None"
  | (Wait) m k where "g' = pys_wait g m k"
  | (Resolve) m where "after (pys_resolve g m) = Some g'"
  | (States) st where "g' = g\<lparr>pysStates := st\<rparr>"
  | (Refs) r where "g' = g\<lparr>pysRefs := r\<rparr>"
  | (Funcs) f where "g' = g\<lparr>pysFunctions := f\<rparr>"
  | (Trace) tr where "g' = g\<lparr>pys_trace := tr\<rparr>"
  | (Tick) j js where "pys_jobs g = j # js" "g' = pys_run_job j (g\<lparr>pys_jobs := js\<rparr>)"
proof (cases op)
  case (PysPromise m)
  with assms that(1) that(2) [of m] show ?thesis
    by (auto simp: pys_promise_def ensure_promise_eq split: if_splits)
next
  case (PysWait m k)
  with assms have "g' = pys_wait g m (WaitFrame k)" by simp
  then show ?thesis by (rule that(3))
next
  case (PysResolve m)
  with assms have "after (pys_resolve g m) = Some g'" by simp
  then show ?thesis by (rule that(4))
next
  case (PysRegisterState m s t)
  with assms that(5) show ?thesis
    by (auto simp: pys_register_state_def split: option.splits)
next
  case (PysRegisterRef m v)
  with assms that(6) show ?thesis
    by (auto simp: pys_register_ref_def split: option.splits)
next
  case (PysFunc m v)
  with assms that(7) show ?thesis
    by (auto simp: pys_func_def split: option.splits)
next
  case (PysSet m v)
  with assms that(1) that(8) show ?thesis
    by (auto simp: pys_set_def split: if_splits sum.splits)
next
  case (PysCallFunc m p args)
  show ?thesis
  proof (cases "typeof p = ''string'' \<and> p \<noteq> Str []")
    case True
    then obtain s where "p = Str s" by (cases p) auto
    with True PysCallFunc assms have "g' = pys_wait g s (CallFrame m args)"
      by (simp add: pys_call_func_def)
    then show ?thesis by (rule that(3))
  next
    case False
    with PysCallFunc assms have "g' = pys_call_stored g m args"
      by (auto simp: pys_call_func_def)
    then show ?thesis by (simp add: pys_call_stored_eq that(8))
  qed
next
  case PysTick
  show ?thesis
  proof (cases "pys_jobs g")
    case Nil
    with assms PysTick have "g' = g" by simp
    then show ?thesis by (rule that(1))
  next
    case (Cons j js)
    with assms PysTick have "g' = pys_run_job j (g\<lparr>pys_jobs := js\<rparr>)" by simp
    with Cons show ?thesis by (rule that(9))
  qed
qed

lemma pys_resolved_step:
  assumes "pys_resolved g n" and "pys_step g op = Some g'"
  shows "pys_resolved g' n"
  using assms(2)
proof (cases rule: pys_step_cases)
  case (Wait m k)
  with assms(1) show ?thesis by (auto simp: pys_wait_eq pys_resolved_def)
next
  case (Resolve m)
  with assms(1) show ?thesis by (auto simp: pys_resolve_eq pys_resolved_def split: if_splits)
next
  case (Tick j js)
  with assms(1) show ?thesis by (simp add: pys_resolved_def)
qed (use assms(1) in \<open>auto simp: pys_resolved_def\<close>)

lemma pys_resolved_run:
  "pys_resolved g n \<Longrightarrow> pys_run g ops = Some g' \<Longrightarrow> pys_resolved g' n"
proof (induction ops arbitrary: g)
  case Nil
  then show ?case by simp
next
  case (Cons op ops)
  from Cons.prems(2) obtain g1 where g1: "pys_step g op = Some g1"
    and rest: "pys_run g1 ops = Some g'"
    by (auto split: option.splits)
  from pys_resolved_step [OF Cons.prems(1) g1] Cons.IH [OF _ rest]
  show ?case by simp
qed

subsection \<open>The class with one signal for the instance\<close>

lemma resolve_single_eq:
  "resolve_single w this =
     (if settled (promise (instances w this)) then w
      else (update_this w this (\<lambda>b. b\<lparr>promise := \<lparr>settled = True, reactions = []\<rparr>\<rparr>))
             \<lparr>jobs := jobs w @ map ResumeWait (reactions (promise (instances w this)))\<rparr>)"
  by (auto simp: resolve_single_def resolve_promise_def update_this_def)




lemma call_events_single_cong:
  assumes "\<And>a. funcs (instances w' a) = funcs (instances w a)"
  shows "call_events_single w' = call_events_single w"
proof
  fix k show "call_events_single w' k = call_events_single w k"
    using assms by (cases k) simp
qed

lemma call_events_single_frame [simp]:
  "call_events_single (w\<lparr>jobs := js\<rparr>) = call_events_single w"
  "call_events_single (w\<lparr>trace := tr\<rparr>) = call_events_single w"
  by (rule call_events_single_cong, simp)+








lemma signals_a_eq:
  "signals_a = \<lparr>instances = (\<lambda>a. new_bridge Map.empty), pysBridge = [''a'' \<mapsto> 0],
                fresh = Suc 0, jobs = [], trace = []\<rparr>"
  by (simp add: signals_a_def create_pys_bridge_def constructor_def init_world_def fun_upd_idem
      slot_def inherited_def object_prototype_functions_def assign_object_def)

subsection \<open>Sequences of calls that have a result\<close>

lemma resolve_modelled: "resolve w this name \<noteq> Unmodelled"
  by (simp add: resolve_eq)

lemma step_None_iff: "step w op = None \<longleftrightarrow> replaces_prototype op"
proof (cases op)
  case (Create pysid)
  then show ?thesis
    using create_pys_bridge_modelled [of w pysid]
    by (cases "create_pys_bridge w pysid") auto
next
  case (New pysid key)
  then show ?thesis
    by (auto simp: constructor_def assign_object_def split: sum.splits)
next
  case (AddState a n g s)
  then show ?thesis
    by (auto simp: add_state_def assign_object_def)
next
  case (SetState a n v)
  then show ?thesis
    by (auto simp: set_state_def split: sum.splits)
next
  case (AddRef a n v)
  then show ?thesis
    by (auto simp: add_ref_def assign_def)
next
  case (AddFunc a n p)
  show ?thesis
  proof (cases "typeof p = ''function''")
    case False
    with AddFunc show ?thesis by (simp add: add_func_not_function)
  next
    case True
    show ?thesis
    proof (cases "n = ''__proto__''")
      case proto: True
      with True AddFunc show ?thesis by (simp add: add_func_proto)
    next
      case other: False
      with True AddFunc
        resolve_modelled [of "update_this w a (\<lambda>b. b\<lparr>funcs := (funcs b)(n \<mapsto> p)\<rparr>)" a n]
      show ?thesis
        by (cases "resolve (update_this w a (\<lambda>b. b\<lparr>funcs := (funcs b)(n \<mapsto> p)\<rparr>)) a n")
           (simp_all add: add_func_eq)
    qed
  qed
next
  case (CallFunc a n args)
  then show ?thesis by simp
next
  case Tick
  then show ?thesis by simp
qed

lemma run_Some_iff:
  "(\<exists>w'. run w ops = Some w') \<longleftrightarrow> list_all (\<lambda>op. \<not> replaces_prototype op) ops"
proof (induction ops arbitrary: w)
  case Nil
  then show ?case by simp
next
  case (Cons op ops)
  show ?case
  proof (cases "step w op")
    case None
    then show ?thesis using step_None_iff [of w op] by simp
  next
    case (Some w1)
    then have "\<not> replaces_prototype op" using step_None_iff [of w op] by simp
    with Some Cons.IH [of w1] show ?thesis by simp
  qed
qed

lemma pys_step_None_iff: "pys_step g op = None \<longleftrightarrow> pys_replaces_prototype op"
proof (cases op)
  case (PysResolve m)
  then show ?thesis by (simp add: pys_resolve_eq)
next
  case (PysRegisterState m s t)
  then show ?thesis by (auto simp: pys_register_state_def assign_object_def)
next
  case (PysRegisterRef m v)
  then show ?thesis by (auto simp: pys_register_ref_def assign_def)
next
  case (PysFunc m v)
  then show ?thesis by (auto simp: pys_func_def assign_def)
next
  case (PysSet m v)
  then show ?thesis by (auto simp: pys_set_def split: sum.splits)
qed simp_all

lemma pys_run_Some_iff:
  "(\<exists>g'. pys_run g ops = Some g') \<longleftrightarrow> list_all (\<lambda>op. \<not> pys_replaces_prototype op) ops"
proof (induction ops arbitrary: g)
  case Nil
  then show ?case by simp
next
  case (Cons op ops)
  show ?case
  proof (cases "pys_step g op")
    case None
    then show ?thesis using pys_step_None_iff [of g op] by simp
  next
    case (Some g1)
    then have "\<not> pys_replaces_prototype op" using pys_step_None_iff [of g op] by simp
    with Some Cons.IH [of g1] show ?thesis by simp
  qed
qed

subsection \<open>Looking an instance up\<close>

lemma plain_names:
  "plain ''a''" "plain ''b''" "plain ''f''" "plain ''p''" "plain ''r''" "plain ''x''"
  "plain ''missing''" "plain ''ready''" "plain []" "plain ''$pys_bridge_global_name''"
  "\<not> plain ''toString''" "\<not> plain ''__proto__''"
  by (simp_all add: plain_def inherited_def object_prototype_functions_def)

lemma inherited_names:
  "inherited ''toString'' = Builtin ''toString''" "inherited ''__proto__'' = ObjectPrototype"
  by (simp_all add: inherited_def object_prototype_functions_def)

text \<open>
  Let \<open>uuid\<close> be the normalized form of the id (the id itself, or the name of the default
  instance for the empty id). \<^verbatim>\<open>get_pys_bridge\<close> has the same text in both files.
\<close>

lemma get_pys_bridge_cases:
  fixes w :: "'p world"
  assumes "get_uuid_ref pysid = Inr uuid"
  shows "pysBridge w uuid = Some a \<Longrightarrow> get_pys_bridge w pysid = Inr (Inst a)"
    and "pysBridge w uuid = None \<Longrightarrow> plain uuid \<Longrightarrow>
           get_pys_bridge w pysid = Inl (Error (''Bridge id '' @ uuid @ '' not found.''))"
    and "pysBridge w uuid = None \<Longrightarrow> \<not> plain uuid \<Longrightarrow>
           get_pys_bridge w pysid = Inr (inherited uuid)"
  using assms by (simp_all add: get_pys_bridge_def slot_def typeof_inherited)

lemma get_pys_bridge_not_string:
  "typeof pysid \<noteq> ''string'' \<Longrightarrow>
     get_pys_bridge w pysid = Inl (Error ''UUID must be a string.'')"
  by (simp add: get_pys_bridge_def get_uuid_ref_not_string)

text \<open>
  Claim C7 fails on the ids that are names of properties of \<^verbatim>\<open>Object.prototype\<close>. In
  a new process of either file, where no instance is registered under any id,
  \<^verbatim>\<open>get_pys_bridge("toString")\<close> does not fail: it returns the function
  \<^verbatim>\<open>Object.prototype.toString\<close>, which the empty object \<^verbatim>\<open>#pysBridge\<close>
  inherits, and \<^verbatim>\<open>get_pys_bridge("__proto__")\<close> returns \<^verbatim>\<open>Object.prototype\<close>.
\<close>

theorem get_pys_bridge_returns_inherited_property:
  "pysBridge (init_world (Map.empty :: signals)) ''toString'' = None
   \<and> get_pys_bridge (init_world (Map.empty :: signals)) (Str ''toString'')
       = Inr (Builtin ''toString'')
   \<and> pysBridge (init_world (createPromise :: single)) ''toString'' = None
   \<and> get_pys_bridge (init_world (createPromise :: single)) (Str ''toString'')
       = Inr (Builtin ''toString'')
   \<and> get_pys_bridge (init_world (createPromise :: single)) (Str ''__proto__'')
       = Inr ObjectPrototype"
  by (simp add: get_pys_bridge_def slot_def inherited_names init_world_def)

text \<open>
  Claim C7, on every id. \<^verbatim>\<open>get_pys_bridge\<close> returns the instance stored under
  \<open>uuid\<close> when there is one. When there is none and \<open>uuid\<close> is no property of
  \<^verbatim>\<open>Object.prototype\<close>, it fails with the error whose message names \<open>uuid\<close>, as the
  claim says; when \<open>uuid\<close> is such a property, it returns the inherited value. An id
  is a string: on any other value the method fails with "UUID must be a string." before it
  looks anything up (\<open>get_pys_bridge_not_string\<close>).
\<close>

theorem get_pys_bridge_instance_or_not_found:
  fixes w :: "'p world"
  assumes "get_uuid_ref pysid = Inr uuid"
  shows "(\<forall>a. pysBridge w uuid = Some a \<longrightarrow> get_pys_bridge w pysid = Inr (Inst a))
       \<and> (pysBridge w uuid = None \<longrightarrow> plain uuid \<longrightarrow>
            get_pys_bridge w pysid = Inl (Error (''Bridge id '' @ uuid @ '' not found.'')))
       \<and> (pysBridge w uuid = None \<longrightarrow> \<not> plain uuid \<longrightarrow>
            get_pys_bridge w pysid = Inr (inherited uuid))"
  using get_pys_bridge_cases [OF assms, of w] by blast

theorem get_pys_bridge_instance_or_not_found_witness:
  "get_uuid_ref (Str ''missing'') = Inr ''missing''
   \<and> pysBridge (init_world (Map.empty :: signals)) ''missing'' = None
   \<and> plain ''missing''
   \<and> get_pys_bridge (init_world (Map.empty :: signals)) (Str ''missing'')
       = Inl (Error ''Bridge id missing not found.'')
   \<and> get_uuid_ref (Str ''a'') = Inr ''a''
   \<and> pysBridge signals_a ''a'' = Some 0
   \<and> get_pys_bridge signals_a (Str ''a'') = Inr (Inst 0)"
proof -
  have id1: "get_uuid_ref (Str ''missing'') = Inr ''missing''"
    and id2: "get_uuid_ref (Str ''a'') = Inr ''a''"
    by simp_all
  have none: "pysBridge (init_world (Map.empty :: signals)) ''missing'' = None"
    by (simp add: init_world_def)
  have some: "pysBridge signals_a ''a'' = Some 0"
    by (simp add: signals_a_eq)
  from get_pys_bridge_instance_or_not_found [OF id1, of "init_world (Map.empty :: signals)"]
    none plain_names(7)
  have missing: "get_pys_bridge (init_world (Map.empty :: signals)) (Str ''missing'')
       = Inl (Error ''Bridge id missing not found.'')"
    by simp
  from get_pys_bridge_instance_or_not_found [OF id2, of signals_a] some
  have found: "get_pys_bridge signals_a (Str ''a'') = Inr (Inst 0)"
    by blast
  from id1 id2 none some missing found plain_names(7) show ?thesis by (intro conjI)
qed

subsection \<open>States and refs\<close>


text \<open>
  Claim C9 fails on the names that are names of properties of \<^verbatim>\<open>Object.prototype\<close>.
  In a process where \<^verbatim>\<open>create_pys_bridge("a")\<close> has run,
  \<^verbatim>\<open>add_ref("__proto__", undefined)\<close> changes nothing, and after it
  \<^verbatim>\<open>has_ref("__proto__")\<close> is true and \<^verbatim>\<open>ref("__proto__")\<close> returns
  \<^verbatim>\<open>Object.prototype\<close>; the flat API does the same. With the name \<^verbatim>\<open>toString\<close>
  the registration is not the same as none: \<^verbatim>\<open>has_ref("toString")\<close> is true before
  \<^verbatim>\<open>add_ref("toString", undefined)\<close> and false after it.
\<close>

theorem undefined_ref_inherited_name_present:
  "add_ref signals_a 0 ''__proto__'' Undefined = Done signals_a Undefined
   \<and> has_ref signals_a 0 ''__proto__''
   \<and> ref signals_a 0 ''__proto__'' = Inr ObjectPrototype
   \<and> pys_register_ref pys_init ''__proto__'' Undefined = Done pys_init Undefined
   \<and> pys_ref pys_init ''__proto__'' = Inr ObjectPrototype
   \<and> has_ref signals_a 0 ''toString''
   \<and> (case add_ref signals_a 0 ''toString'' Undefined of
         Done w r \<Rightarrow> \<not> has_ref w 0 ''toString''
       | Thrown w e \<Rightarrow> False
       | Unmodelled \<Rightarrow> False)"
  by (simp add: add_ref_def assign_def has_ref_def ref_def lookup_def inherited_names
      pys_register_ref_def pys_ref_def update_this_def signals_a_eq new_bridge_def pys_init_def
      fun_upd_idem)

text \<open>
  Claim C9, on every other name. After \<^verbatim>\<open>add_ref(name, undefined)\<close> with a name
  other than \<^verbatim>\<open>__proto__\<close>, \<^verbatim>\<open>has_ref(name)\<close> is false and \<^verbatim>\<open>ref(name)\<close>
  fails with the not-found error, and so does \<^verbatim>\<open>pys_ref\<close> after
  \<^verbatim>\<open>pys_register_ref(name, undefined)\<close>. When the name is no property of
  \<^verbatim>\<open>Object.prototype\<close> and was never registered, both methods answered the same
  before the registration. The methods have the same text in both files.
\<close>

theorem undefined_ref_reads_as_absent:
  fixes w :: "'p world"
  assumes "name \<noteq> ''__proto__''"
  shows "(\<exists>w'. add_ref w this name Undefined = Done w' Undefined
            \<and> \<not> has_ref w' this name
            \<and> ref w' this name = Inl (Error (''Var '' @ name @ '' not found.'')))
       \<and> (\<exists>g'. pys_register_ref g name Undefined = Done g' Undefined
            \<and> pys_ref g' name = Inl (Error (''Ref '' @ name @ '' not found.'')))
       \<and> (plain name \<longrightarrow> refs (instances w this) name = None \<longrightarrow>
            \<not> has_ref w this name
            \<and> ref w this name = Inl (Error (''Var '' @ name @ '' not found.'')))
       \<and> (plain name \<longrightarrow> pysRefs g name = None \<longrightarrow>
            pys_ref g name = Inl (Error (''Ref '' @ name @ '' not found.'')))"
  using assms
  by (simp add: has_ref_def ref_def add_ref_def assign_def update_this_def
      pys_ref_def pys_register_ref_def lookup_plain)

theorem undefined_ref_reads_as_absent_witness:
  "''r'' \<noteq> ''__proto__''
   \<and> plain ''r''
   \<and> refs (instances signals_a 0) ''r'' = None
   \<and> \<not> has_ref signals_a 0 ''r''
   \<and> (case add_ref signals_a 0 ''r'' Undefined of
         Done w' r \<Rightarrow>
           \<not> has_ref w' 0 ''r'' \<and> ref w' 0 ''r'' = Inl (Error ''Var r not found.'')
       | Thrown w' e \<Rightarrow> False
       | Unmodelled \<Rightarrow> False)
   \<and> (case pys_register_ref pys_init ''r'' Undefined of
         Done g' r \<Rightarrow> pys_ref g' ''r'' = Inl (Error ''Ref r not found.'')
       | Thrown g' e \<Rightarrow> False
       | Unmodelled \<Rightarrow> False)"
proof -
  have name: "''r'' \<noteq> ''__proto__''" by simp
  have absent: "refs (instances signals_a 0) ''r'' = None"
    by (simp add: signals_a_eq new_bridge_def)
  note thm1 = undefined_ref_reads_as_absent [OF name, of signals_a 0 pys_init]
  from thm1 plain_names(5) absent have before: "\<not> has_ref signals_a 0 ''r''"
    by blast
  from thm1 obtain w' g' where
    "add_ref signals_a 0 ''r'' Undefined = Done w' Undefined"
    "\<not> has_ref w' 0 ''r''" "ref w' 0 ''r'' = Inl (Error (''Var '' @ ''r'' @ '' not found.''))"
    "pys_register_ref pys_init ''r'' Undefined = Done g' Undefined"
    "pys_ref g' ''r'' = Inl (Error (''Ref '' @ ''r'' @ '' not found.''))"
    by blast
  with name plain_names(5) absent before show ?thesis by simp
qed

subsection \<open>Creating an instance twice\<close>

text \<open>
  Claim C3 fails on the class of \<^verbatim>\<open>assets/pysbridge.js\<close>: in a new process the first
  \<^verbatim>\<open>create_pys_bridge("a")\<close> returns the new instance, at address 0, and the second
  call returns \<^verbatim>\<open>undefined\<close>, not that instance.
\<close>

theorem create_pys_bridge_single_again_undefined:
  "(case create_pys_bridge_single (init_world createPromise) (Str ''a'') of
      Done w1 r1 \<Rightarrow>
        r1 = Inst 0
        \<and> (case create_pys_bridge_single w1 (Str ''a'') of
              Done w2 r2 \<Rightarrow> r2 = Undefined
            | Thrown w2 e \<Rightarrow> False
            | Unmodelled \<Rightarrow> False)
    | Thrown w1 e \<Rightarrow> False
    | Unmodelled \<Rightarrow> False)"
  by (simp add: create_pys_bridge_single_def constructor_single_def init_world_def slot_def
      inherited_def object_prototype_functions_def assign_object_def)

lemma create_pys_bridge_returns:
  "\<exists>w1 r1. create_pys_bridge w (Str pysid) = Done w1 r1"
proof -
  let ?uuid = "if pysid = [] then pysBridgeGlobalName else pysid"
  have uuid: "get_uuid_ref (Str pysid) = Inr ?uuid" by simp
  show ?thesis
  proof (cases "pysBridge w ?uuid")
    case (Some a)
    from create_pys_bridge_existing [OF uuid Some] show ?thesis by blast
  next
    case None
    from create_pys_bridge_new [OF uuid None] create_pys_bridge_inherited [OF uuid None]
    show ?thesis by (cases "plain ?uuid") blast+
  qed
qed

lemma create_pys_bridge_instance:
  assumes "create_pys_bridge w pysid = Done w1 r1" and "get_uuid_ref pysid = Inr uuid"
    and "plain uuid"
  shows "\<exists>a. r1 = Inst a \<and> pysBridge w1 uuid = Some a"
proof (cases "pysBridge w uuid")
  case (Some a)
  from create_pys_bridge_existing [OF assms(2) Some] assms(1) Some show ?thesis by auto
next
  case None
  from create_pys_bridge_new [OF assms(2) None assms(3)] assms(1) show ?thesis by auto
qed

text \<open>
  Claim C3, on the class with one signal for each name. For every string id,
  \<^verbatim>\<open>create_pys_bridge(id)\<close> returns, and a second call returns the same value and
  changes nothing. When the normalized id is no property of \<^verbatim>\<open>Object.prototype\<close>,
  that value is an instance, the one stored in \<^verbatim>\<open>#pysBridge\<close> under the normalized
  id. The empty id and the default id give the same call.
\<close>

theorem create_pys_bridge_twice_same_instance:
  "(\<exists>w1 r1. create_pys_bridge w (Str pysid) = Done w1 r1
       \<and> create_pys_bridge w1 (Str pysid) = Done w1 r1
       \<and> (\<forall>uuid. get_uuid_ref (Str pysid) = Inr uuid \<longrightarrow> plain uuid \<longrightarrow>
             (\<exists>a. r1 = Inst a \<and> pysBridge w1 uuid = Some a)))
   \<and> create_pys_bridge w (Str []) = create_pys_bridge w (Str pysBridgeGlobalName)"
proof -
  from create_pys_bridge_returns [of w pysid]
  obtain w1 r1 where first: "create_pys_bridge w (Str pysid) = Done w1 r1"
    by blast
  from first have again: "create_pys_bridge w1 (Str pysid) = Done w1 r1"
    by (rule create_pys_bridge_twice_same)
  from first
  have inst: "\<forall>uuid. get_uuid_ref (Str pysid) = Inr uuid \<longrightarrow> plain uuid \<longrightarrow>
             (\<exists>a. r1 = Inst a \<and> pysBridge w1 uuid = Some a)"
    using create_pys_bridge_instance [of w "Str pysid" w1 r1] by blast
  from first again inst create_pys_bridge_default_same [of w] show ?thesis
    by blast
qed

theorem create_pys_bridge_twice_same_instance_witness:
  "get_uuid_ref (Str ''a'') = Inr ''a''
   \<and> plain ''a''
   \<and> create_pys_bridge (init_world Map.empty) (Str ''a'') = Done signals_a (Inst 0)
   \<and> create_pys_bridge signals_a (Str ''a'') = Done signals_a (Inst 0)"
proof -
  have uuid: "get_uuid_ref (Str ''a'') = Inr ''a''" by simp
  from create_pys_bridge_twice_same_instance [of "init_world Map.empty" "''a''"]
  obtain w1 r1 where first: "create_pys_bridge (init_world Map.empty) (Str ''a'') = Done w1 r1"
    and again: "create_pys_bridge w1 (Str ''a'') = Done w1 r1"
    and inst: "\<forall>uuid. get_uuid_ref (Str ''a'') = Inr uuid \<longrightarrow> plain uuid \<longrightarrow>
             (\<exists>a. r1 = Inst a \<and> pysBridge w1 uuid = Some a)"
    by (elim conjE exE)
  from first have w1: "w1 = signals_a"
    by (simp add: signals_a_def)
  from inst uuid plain_names(1) obtain a where a: "r1 = Inst a" "pysBridge w1 ''a'' = Some a"
    by blast
  from a(2) w1 have "a = 0" by (simp add: signals_a_eq)
  with a(1) first again w1 uuid plain_names(1) show ?thesis by simp
qed

subsection \<open>Readiness signals stay resolved\<close>

text \<open>
  Claim C4. In the flat API, \<^verbatim>\<open>pys_resolve\<close> on a signal that is already resolved
  returns without throwing and changes nothing in the global state; whenever
  \<^verbatim>\<open>pys_resolve\<close> returns, the signal is resolved and a second \<^verbatim>\<open>pys_resolve\<close>
  changes nothing; it does return for every name that is no property of
  \<^verbatim>\<open>Object.prototype\<close> and for every signal that exists. No call of the flat API and
  no job of the event loop makes a resolved signal unresolved. The same holds for
  \<^verbatim>\<open>#resolve\<close> in the class with one signal for each name, for the signals of an
  instance that exists, and \<^verbatim>\<open>resolve()\<close> of the class of
  \<^verbatim>\<open>assets/pysbridge.js\<close> changes nothing the second time.
\<close>

theorem resolving_is_idempotent_and_monotonic:
  fixes w :: "signals world" and ws :: "single world"
  shows
  "(pys_resolved g n \<longrightarrow> pys_resolve g n = Done g Undefined)
   \<and> (\<forall>g1 r. pys_resolve g n = Done g1 r \<longrightarrow>
         pys_resolved g1 n \<and> pys_resolve g1 n = Done g1 Undefined)
   \<and> (plain n \<or> pysPromises g n \<noteq> None \<longrightarrow> (\<exists>g1. pys_resolve g n = Done g1 Undefined))
   \<and> (pys_resolved g n \<longrightarrow> pys_run g pys_ops = Some g' \<longrightarrow> pys_resolved g' n)
   \<and> (is_ready w this name \<longrightarrow> resolve w this name = Done w Undefined)
   \<and> (\<forall>w1 r. resolve w this name = Done w1 r \<longrightarrow>
         is_ready w1 this name \<and> resolve w1 this name = Done w1 Undefined)
   \<and> (plain name \<or> promise (instances w this) name \<noteq> None \<longrightarrow>
         (\<exists>w1. resolve w this name = Done w1 Undefined))
   \<and> (this < fresh w \<longrightarrow> is_ready w this name \<longrightarrow> run w ops = Some w' \<longrightarrow>
         is_ready w' this name)
   \<and> settled (promise (instances (resolve_single ws this) this))
   \<and> resolve_single (resolve_single ws this) this = resolve_single ws this"
proof -
  have noop: "pys_resolved g n \<longrightarrow> pys_resolve g n = Done g Undefined"
    by (simp add: pys_resolve_eq)
  have twice: "\<forall>g1 r. pys_resolve g n = Done g1 r \<longrightarrow>
         pys_resolved g1 n \<and> pys_resolve g1 n = Done g1 Undefined"
    by (auto simp: pys_resolve_eq pys_resolved_def split: if_splits)
  have total: "plain n \<or> pysPromises g n \<noteq> None \<longrightarrow> (\<exists>g1. pys_resolve g n = Done g1 Undefined)"
    by (simp add: pys_resolve_eq)
  have stays: "pys_resolved g n \<longrightarrow> pys_run g pys_ops = Some g' \<longrightarrow> pys_resolved g' n"
    using pys_resolved_run [of g n pys_ops g'] by blast
  have noop': "is_ready w this name \<longrightarrow> resolve w this name = Done w Undefined"
    by (simp add: resolve_eq)
  have twice': "\<forall>w1 r. resolve w this name = Done w1 r \<longrightarrow>
         is_ready w1 this name \<and> resolve w1 this name = Done w1 Undefined"
    by (auto simp: resolve_eq is_ready_def update_this_def split: if_splits)
  have total': "plain name \<or> promise (instances w this) name \<noteq> None \<longrightarrow>
         (\<exists>w1. resolve w this name = Done w1 Undefined)"
    by (simp add: resolve_eq)
  have stays': "this < fresh w \<longrightarrow> is_ready w this name \<longrightarrow> run w ops = Some w' \<longrightarrow>
         is_ready w' this name"
    using is_ready_run [of this w name ops w'] by blast
  have single: "settled (promise (instances (resolve_single ws this) this))"
    by (simp add: resolve_single_eq update_this_def)
  from single
  have single': "resolve_single (resolve_single ws this) this = resolve_single ws this"
    by (subst resolve_single_eq) simp
  from noop twice total stays noop' twice' total' stays' single single' show ?thesis
    by (intro conjI)
qed

theorem resolving_is_idempotent_and_monotonic_witness:
  "plain ''p''
   \<and> (case pys_resolve pys_init ''p'' of
         Done g1 r \<Rightarrow>
           pys_resolved g1 ''p''
           \<and> pys_resolve g1 ''p'' = Done g1 Undefined
           \<and> (case pys_run g1 [PysPromise ''p'', PysWait ''p'' 0, PysResolve ''p'', PysTick] of
                 Some g2 \<Rightarrow> pys_resolved g2 ''p''
               | None \<Rightarrow> False)
       | Thrown g1 e \<Rightarrow> False
       | Unmodelled \<Rightarrow> False)
   \<and> plain ''f''
   \<and> (case resolve signals_a 0 ''f'' of
         Done w1 r \<Rightarrow>
           0 < fresh w1
           \<and> is_ready w1 0 ''f''
           \<and> resolve w1 0 ''f'' = Done w1 Undefined
           \<and> (case run w1 [CallFunc 0 ''f'' [], AddFunc 0 ''f'' (Fn 2), Create (Str ''b''),
                            Tick, Tick] of
                 Some w2 \<Rightarrow> is_ready w2 0 ''f''
               | None \<Rightarrow> False)
       | Thrown w1 e \<Rightarrow> False
       | Unmodelled \<Rightarrow> False)"
proof -
  let ?pops = "[PysPromise ''p'', PysWait ''p'' 0, PysResolve ''p'', PysTick]"
  let ?ops = "[CallFunc 0 ''f'' [], AddFunc 0 ''f'' (Fn 2), Create (Str ''b''), Tick, Tick]"
  note thm0 = resolving_is_idempotent_and_monotonic
                [of pys_init "''p''" "[]" pys_init signals_a 0 "''f''" "[]" signals_a single_a]
  from thm0 plain_names obtain g1 w1 where
    g1: "pys_resolve pys_init ''p'' = Done g1 Undefined"
      "pys_resolved g1 ''p''" "pys_resolve g1 ''p'' = Done g1 Undefined"
    and w1: "resolve signals_a 0 ''f'' = Done w1 Undefined"
      "is_ready w1 0 ''f''" "resolve w1 0 ''f'' = Done w1 Undefined"
    by blast
  from w1(1) have fr: "0 < fresh w1"
    by (auto simp: resolve_eq signals_a_eq update_this_def split: if_splits)
  obtain g2 where g2: "pys_run g1 ?pops = Some g2"
    using pys_run_Some_iff [of g1 ?pops] by auto
  obtain w2 where w2: "run w1 ?ops = Some w2"
    using run_Some_iff [of w1 ?ops] by auto
  note thm1 = resolving_is_idempotent_and_monotonic
                [of g1 "''p''" ?pops g2 w1 0 "''f''" ?ops w2 single_a]
  from thm1 g1(2) g2 have g2r: "pys_resolved g2 ''p''" by blast
  from thm1 fr w1(2) w2 have w2r: "is_ready w2 0 ''f''" by blast
  from g1 g2 g2r w1 w2 w2r fr plain_names(3,4) show ?thesis by simp
qed

subsection \<open>Instances and the constructor key\<close>

text \<open>
  Claim C10. In the class with one signal for each name, the constructor fails for every
  key that is not \<^verbatim>\<open>PRIVATE_CONSTRUCTOR_KEY\<close>; a construction that succeeds was given
  that key and has stored the new instance in \<^verbatim>\<open>#pysBridge\<close> under the normalized
  id. So among the calls of code that does not hold the key only \<^verbatim>\<open>create_pys_bridge\<close>
  makes a new instance, \<^verbatim>\<open>create_pys_bridge\<close> always has a result, and after any
  sequence of such calls in a new process every instance that exists is stored in
  \<^verbatim>\<open>#pysBridge\<close>.
\<close>

theorem constructor_only_with_private_key:
  "(key \<noteq> PRIVATE_CONSTRUCTOR_KEY \<longrightarrow>
      constructor w pysid key = Thrown w (Error ''Cannot instantiate PysBridge directly.''))
   \<and> (\<forall>w' this. constructor w pysid key = Done w' this \<longrightarrow>
         key = PRIVATE_CONSTRUCTOR_KEY
         \<and> this = Inst (fresh w)
         \<and> (\<exists>uuid. get_uuid_ref pysid = Inr uuid \<and> pysBridge w' uuid = Some (fresh w)))
   \<and> (outside op \<longrightarrow> step w op = Some w1 \<longrightarrow> fresh w1 \<noteq> fresh w \<longrightarrow>
         (\<exists>pysid'. op = Create pysid'))
   \<and> create_pys_bridge w pysid \<noteq> Unmodelled
   \<and> (list_all outside ops \<longrightarrow> run (init_world Map.empty) ops = Some w2 \<longrightarrow> recorded w2)"
  using constructor_without_key [of key w pysid] constructor_success (1,2,4) [of w pysid key]
    fresh_step_outside [of op w w1] create_pys_bridge_modelled [of w pysid]
    recorded_run [OF recorded_init, of ops Map.empty w2]
  by blast

theorem constructor_only_with_private_key_witness:
  "Sym 1 \<noteq> PRIVATE_CONSTRUCTOR_KEY
   \<and> constructor (init_world Map.empty) (Str ''a'') (Sym 1)
       = Thrown (init_world Map.empty) (Error ''Cannot instantiate PysBridge directly.'')
   \<and> list_all outside [New (Str ''a'') (Sym 1), Create (Str ''a''), Create (Str []),
                        AddFunc 0 ''f'' (Fn 1)]
   \<and> (case run (init_world Map.empty)
               [New (Str ''a'') (Sym 1), Create (Str ''a''), Create (Str []),
                AddFunc 0 ''f'' (Fn 1)] of
         Some w2 \<Rightarrow> recorded w2 \<and> fresh w2 = 2
       | None \<Rightarrow> False)"
proof -
  let ?ops = "[New (Str ''a'') (Sym 1), Create (Str ''a''), Create (Str []),
               AddFunc 0 ''f'' (Fn 1)]"
  have key: "Sym 1 \<noteq> PRIVATE_CONSTRUCTOR_KEY"
    by (simp add: PRIVATE_CONSTRUCTOR_KEY_def)
  have out: "list_all outside ?ops"
    by (simp add: PRIVATE_CONSTRUCTOR_KEY_def)
  have s1: "step (init_world Map.empty) (New (Str ''a'') (Sym 1)) = Some (init_world Map.empty)"
    using constructor_without_key [OF key, of "init_world Map.empty" "Str ''a''"] by simp
  have s2: "step (init_world Map.empty) (Create (Str ''a'')) = Some signals_a"
    using create_pys_bridge_modelled [of "init_world Map.empty" "Str ''a''"]
    by (cases "create_pys_bridge (init_world Map.empty) (Str ''a'')")
       (simp_all add: signals_a_def)
  obtain w2 where w2: "run (init_world Map.empty) ?ops = Some w2"
    using run_Some_iff [of "init_world Map.empty" ?ops] by (auto simp: PRIVATE_CONSTRUCTOR_KEY_def)
  have two: "fresh w2 = 2"
    using w2 s1 s2
    by (auto simp: signals_a_eq create_pys_bridge_def constructor_def slot_def
        assign_object_def pysBridgeGlobalName_def inherited_def object_prototype_functions_def
        add_func_eq resolve_eq update_this_def is_ready_def new_bridge_def plain_names
        split: if_splits)
  from key out w2
    constructor_only_with_private_key
      [of "Sym 1" "init_world Map.empty" "Str ''a''" Tick "init_world Map.empty" ?ops w2]
  have "constructor (init_world Map.empty) (Str ''a'') (Sym 1)
          = Thrown (init_world Map.empty) (Error ''Cannot instantiate PysBridge directly.'')"
    and "recorded w2"
    by blast+
  with key out w2 two show ?thesis by simp
qed

subsection \<open>The stores of two instances\<close>




subsection \<open>Registering a function\<close>

text \<open>
  In the class with one signal for each name, \<^verbatim>\<open>add_func\<close> with a function and a
  name that \<^verbatim>\<open>Object.prototype\<close> has (other than \<^verbatim>\<open>__proto__\<close>) stores the function
  and then throws: the table of promises reads the inherited function under that name, so no
  signal is made, and the inherited function has no \<^verbatim>\<open>resolve\<close>.
\<close>

lemma add_func_inherited_name:
  assumes "typeof p = ''function''" and "\<not> plain name" and "name \<noteq> ''__proto__''"
    and "promise (instances w this) name = None"
  shows "add_func w this name p =
           Thrown (update_this w this (\<lambda>b. b\<lparr>funcs := (funcs b)(name \<mapsto> p)\<rparr>))
             (TypeError ''resolve is not a function'')"
  using assms by (simp add: add_func_eq resolve_eq is_ready_def update_this_def)




subsection \<open>Calling a function\<close>






subsection \<open>Calling a function of the flat API\<close>



lemma pys_call_events_cases:
  "typeof (lookup (pysFunctions g) f) = ''function'' \<Longrightarrow>
     pys_call_events g (CallFrame f args) = [Invoked (lookup (pysFunctions g) f) args]"
  "typeof (lookup (pysFunctions g) f) \<noteq> ''function'' \<Longrightarrow>
     pys_call_events g (CallFrame f args)
       = [Rejected (Error (''Function '' @ f @ '' not function.''))]"
  by simp_all

lemma pys_wait_functions [simp]: "pysFunctions (pys_wait g s k) = pysFunctions g"
  by (simp add: pys_wait_eq)

lemma pys_wait_events [simp]:
  "pys_call_events (pys_wait g s k) = pys_call_events g"
  "pys_turn_events (pys_wait g s k) = pys_turn_events g"
  by (rule pys_call_events_cong pys_turn_events_cong, simp)+




text \<open>
  With a \<^verbatim>\<open>promiseName\<close> that \<^verbatim>\<open>Object.prototype\<close> has and no signal of that name,
  \<^verbatim>\<open>pys_wait\<close> makes no signal and waits for none: the caller goes on in the next job.
\<close>

lemma pys_wait_inherited_name:
  assumes "\<not> plain s" and "pysPromises g s = None"
  shows "pys_wait g s k = g\<lparr>pys_jobs := pys_jobs g @ [ResumeWait k]\<rparr>"
  using assms by (simp add: pys_wait_eq pys_resolved_def)




end
